theory Spec2Isabelle
  imports Complex_Main "HOL-Library.AList"
begin

section \<open>Values of the host language\<close>

text \<open>
  Messages reach the panel as values of unknown shape (\<^verbatim>\<open>message: unknown\<close>), so the
  model has a type of untyped values: \<^verbatim>\<open>undefined\<close>, \<^verbatim>\<open>null\<close>, booleans, numbers,
  strings and plain data objects. An object is the list of its own properties in insertion
  order; a read takes the first entry of a key. Arrays, functions and accessors are not
  represented. The field names of a message are data field names, never names of members of
  \<^verbatim>\<open>Object.prototype\<close>, so a read of a message finds own properties only. (The names in the
  \<^verbatim>\<open>topics\<close> object of the panel state come from the host and can be any string: there the
  inherited members are represented, see below.)

  A number is a double: \<^verbatim>\<open>NaN\<close>, the negative zero, an infinity, or a finite value, with
  \<open>Finite 0\<close> the positive zero. The arithmetic of doubles is not defined in this theory: it
  is a parameter of the functions that compute with numbers (see below), so that nothing is
  assumed about rounding, overflow or the sign of zero.
\<close>

datatype jsnum = NaN | NegativeZero | PositiveInfinity | NegativeInfinity | Finite real

datatype jsval =
    JUndefined
  | JNull
  | JBool bool
  | JNum jsnum
  | JStr string
  | JObj "(string \<times> jsval) list"

datatype error = TypeError

definition bindE :: "error + 'a \<Rightarrow> ('a \<Rightarrow> error + 'b) \<Rightarrow> error + 'b" where
  "bindE r f = (case r of Inl e \<Rightarrow> Inl e | Inr v \<Rightarrow> f v)"

fun typeof :: "jsval \<Rightarrow> string" where
  "typeof JUndefined = ''undefined''"
| "typeof JNull = ''object''"
| "typeof (JBool b) = ''boolean''"
| "typeof (JNum n) = ''number''"
| "typeof (JStr s) = ''string''"
| "typeof (JObj kvs) = ''object''"

text \<open>Truthiness, as \<^verbatim>\<open>!v\<close> and \<^verbatim>\<open>if (v)\<close> test it.\<close>

fun truthy :: "jsval \<Rightarrow> bool" where
  "truthy JUndefined = False"
| "truthy JNull = False"
| "truthy (JBool b) = b"
| "truthy (JNum n) =
     (case n of
        NaN \<Rightarrow> False
      | NegativeZero \<Rightarrow> False
      | PositiveInfinity \<Rightarrow> True
      | NegativeInfinity \<Rightarrow> True
      | Finite r \<Rightarrow> r \<noteq> 0)"
| "truthy (JStr s) = (s \<noteq> [])"
| "truthy (JObj kvs) = True"

fun nullish :: "jsval \<Rightarrow> bool" where
  "nullish JUndefined = True"
| "nullish JNull = True"
| "nullish v = False"

text \<open>The own property \<open>k\<close> of a value that is neither \<^verbatim>\<open>null\<close> nor \<^verbatim>\<open>undefined\<close>.\<close>

fun ownProp :: "jsval \<Rightarrow> string \<Rightarrow> jsval" where
  "ownProp (JObj kvs) k = (case map_of kvs k of None \<Rightarrow> JUndefined | Some v \<Rightarrow> v)"
| "ownProp v k = JUndefined"

text \<open>\<^verbatim>\<open>v.k\<close>: a read on \<^verbatim>\<open>null\<close> or \<^verbatim>\<open>undefined\<close> throws.\<close>

definition getProp :: "jsval \<Rightarrow> string \<Rightarrow> error + jsval" where
  "getProp v k = (if nullish v then Inl TypeError else Inr (ownProp v k))"

text \<open>\<^verbatim>\<open>v?.k\<close>: a read on \<^verbatim>\<open>null\<close> or \<^verbatim>\<open>undefined\<close> gives \<^verbatim>\<open>undefined\<close>.\<close>

definition optProp :: "jsval \<Rightarrow> string \<Rightarrow> jsval" where
  "optProp v k = (if nullish v then JUndefined else ownProp v k)"

subsection \<open>Numbers\<close>

text \<open>
  The conversion that arithmetic applies to an operand. The numeric value of a string
  (the runtime's parser of numeric literals) is the parameter \<open>sn\<close>; a plain data object
  converts to \<^verbatim>\<open>NaN\<close>.
\<close>

fun toNumber :: "(string \<Rightarrow> jsnum) \<Rightarrow> jsval \<Rightarrow> jsnum" where
  "toNumber sn JUndefined = NaN"
| "toNumber sn JNull = Finite 0"
| "toNumber sn (JBool b) = Finite (if b then 1 else 0)"
| "toNumber sn (JNum n) = n"
| "toNumber sn (JStr s) = sn s"
| "toNumber sn (JObj kvs) = NaN"

text \<open>
  The arithmetic of the runtime on doubles, which is no part of the repository: the
  operators \<^verbatim>\<open>*\<close>, \<^verbatim>\<open>+\<close>, \<^verbatim>\<open>-\<close>, \<^verbatim>\<open>/\<close> and \<^verbatim>\<open>>=\<close>, the functions \<^verbatim>\<open>Math.abs\<close>,
  \<^verbatim>\<open>Math.sign\<close>, \<^verbatim>\<open>Math.asin\<close> and \<^verbatim>\<open>Math.atan2\<close>, and the constant \<^verbatim>\<open>Math.PI\<close>. A
  function that computes with numbers takes them as the parameter \<open>fp\<close>, and what is proved
  of it holds whatever they are.
\<close>

record FloatOps =
  fmul :: "jsnum \<Rightarrow> jsnum \<Rightarrow> jsnum"
  fadd :: "jsnum \<Rightarrow> jsnum \<Rightarrow> jsnum"
  fsub :: "jsnum \<Rightarrow> jsnum \<Rightarrow> jsnum"
  fdiv :: "jsnum \<Rightarrow> jsnum \<Rightarrow> jsnum"
  fge :: "jsnum \<Rightarrow> jsnum \<Rightarrow> bool"
  Math_abs :: "jsnum \<Rightarrow> jsnum"
  Math_sign :: "jsnum \<Rightarrow> jsnum"
  Math_asin :: "jsnum \<Rightarrow> jsnum"
  Math_atan2 :: "jsnum \<Rightarrow> jsnum \<Rightarrow> jsnum"
  Math_PI :: jsnum

section \<open>Euler converter\<close>

record Orientation =
  roll :: jsnum
  pitch :: jsnum
  yaw :: jsnum

text \<open>A call of \<^verbatim>\<open>console.warn\<close> with its two arguments.\<close>

datatype diagnostic = Warn string jsval

text \<open>
  \<^verbatim>\<open>quaternionToEuler\<close>. The result carries the diagnostics written to the console.
\<close>

definition quaternionToEuler ::
  "FloatOps \<Rightarrow> (string \<Rightarrow> jsnum) \<Rightarrow> jsval \<Rightarrow> error + (diagnostic list \<times> Orientation)" where
  "quaternionToEuler fp sn quaternion =
     (if \<not> truthy quaternion then
        Inr ([Warn ''Invalid quaternion:'' quaternion], \<lparr>roll = Finite 0, pitch = Finite 0, yaw = Finite 0\<rparr>)
      else bindE (getProp quaternion ''w'') (\<lambda>w.
        if typeof w \<noteq> ''number'' then
          Inr ([Warn ''Invalid quaternion:'' quaternion], \<lparr>roll = Finite 0, pitch = Finite 0, yaw = Finite 0\<rparr>)
        else
          bindE (getProp quaternion ''w'') (\<lambda>vw.
          bindE (getProp quaternion ''x'') (\<lambda>vx.
          bindE (getProp quaternion ''y'') (\<lambda>vy.
          bindE (getProp quaternion ''z'') (\<lambda>vz.
            let q0 = toNumber sn vw;
                q1 = toNumber sn vx;
                q2 = toNumber sn vy;
                q3 = toNumber sn vz;
                sinr_cosp = fmul fp (Finite 2) (fadd fp (fmul fp q0 q1) (fmul fp q2 q3));
                cosr_cosp = fsub fp (Finite 1)
                              (fmul fp (Finite 2) (fadd fp (fmul fp q1 q1) (fmul fp q2 q2)));
                roll = Math_atan2 fp sinr_cosp cosr_cosp;
                sinp = fmul fp (Finite 2) (fsub fp (fmul fp q0 q2) (fmul fp q3 q1));
                pitch = (if fge fp (Math_abs fp sinp) (Finite 1)
                         then fdiv fp (fmul fp (Math_sign fp sinp) (Math_PI fp)) (Finite 2)
                         else Math_asin fp sinp);
                siny_cosp = fmul fp (Finite 2) (fadd fp (fmul fp q0 q3) (fmul fp q1 q2));
                cosy_cosp = fsub fp (Finite 1)
                              (fmul fp (Finite 2) (fadd fp (fmul fp q2 q2) (fmul fp q3 q3)));
                yaw = Math_atan2 fp siny_cosp cosy_cosp
            in Inr ([], \<lparr>roll = fmul fp roll (fdiv fp (Finite 180) (Math_PI fp)),
                         pitch = fmul fp pitch (fdiv fp (Finite 180) (Math_PI fp)),
                         yaw = fmul fp yaw (fdiv fp (Finite 180) (Math_PI fp))\<rparr>)))))))"

section \<open>Quaternion extractor\<close>

text \<open>
  \<^verbatim>\<open>extractQuaternion\<close>. The result \<open>Inr JUndefined\<close> is the source's \<^verbatim>\<open>undefined\<close>
  (no quaternion found); \<open>Inl\<close> would be a thrown exception.
\<close>

definition extractQuaternion :: "jsval \<Rightarrow> error + jsval" where
  "extractQuaternion message =
     (if \<not> truthy message \<or> typeof message \<noteq> ''object'' then Inr JUndefined
      else
        let msg = message in
        bindE (getProp msg ''x'') (\<lambda>mx.
        bindE (getProp msg ''y'') (\<lambda>my.
        bindE (getProp msg ''z'') (\<lambda>mz.
        bindE (getProp msg ''w'') (\<lambda>mw.
          if mx \<noteq> JUndefined \<and> my \<noteq> JUndefined \<and> mz \<noteq> JUndefined \<and> mw \<noteq> JUndefined then Inr msg
          else
            bindE (getProp msg ''orientation'') (\<lambda>o1.
            if truthy o1 then getProp msg ''orientation''
            else
              bindE (getProp msg ''pose'') (\<lambda>p1.
              if truthy (optProp p1 ''orientation'') then
                bindE (getProp msg ''pose'') (\<lambda>p. getProp p ''orientation'')
              else if truthy (optProp (optProp p1 ''pose'') ''orientation'') then
                bindE (getProp msg ''pose'') (\<lambda>p. bindE (getProp p ''pose'') (\<lambda>pp. getProp pp ''orientation''))
              else
                bindE (getProp msg ''rotation'') (\<lambda>r1.
                if truthy r1 then getProp msg ''rotation''
                else
                  bindE (getProp msg ''transform'') (\<lambda>t1.
                  if truthy (optProp t1 ''rotation'') then
                    bindE (getProp msg ''transform'') (\<lambda>t. getProp t ''rotation'')
                  else Inr JUndefined)))))))))"

text \<open>
  The extractor as an ordered list of shapes, the first one that matches wins, which is how
  the specification words it. The first shape is the message itself; the others are the field
  paths below, each read with \<^verbatim>\<open>?.\<close> after its first step. A path matches when the value at
  its end is truthy.
\<close>

definition isObject :: "jsval \<Rightarrow> bool" where
  "isObject m = (truthy m \<and> typeof m = ''object'')"

fun path :: "jsval \<Rightarrow> string list \<Rightarrow> jsval" where
  "path m [] = m"
| "path m (k # ks) = path (optProp m k) ks"

definition nestedShapes :: "string list list" where
  "nestedShapes =
     [[''orientation''],
      [''pose'', ''orientation''],
      [''pose'', ''pose'', ''orientation''],
      [''rotation''],
      [''transform'', ''rotation'']]"

definition firstNested :: "jsval \<Rightarrow> jsval" where
  "firstNested m =
     (case find (\<lambda>ks. truthy (path m ks)) nestedShapes of
        None \<Rightarrow> JUndefined
      | Some ks \<Rightarrow> path m ks)"

text \<open>The first shape as the specification has it: \<open>x\<close>, \<open>y\<close>, \<open>z\<close>, \<open>w\<close> are numbers.\<close>

definition shapeBareNumeric :: "jsval \<Rightarrow> bool" where
  "shapeBareNumeric m =
     (typeof (ownProp m ''x'') = ''number'' \<and> typeof (ownProp m ''y'') = ''number'' \<and>
      typeof (ownProp m ''z'') = ''number'' \<and> typeof (ownProp m ''w'') = ''number'')"

text \<open>The first shape as the source tests it: none of the four is \<^verbatim>\<open>undefined\<close>.\<close>

definition shapeBare :: "jsval \<Rightarrow> bool" where
  "shapeBare m =
     (ownProp m ''x'' \<noteq> JUndefined \<and> ownProp m ''y'' \<noteq> JUndefined \<and>
      ownProp m ''z'' \<noteq> JUndefined \<and> ownProp m ''w'' \<noteq> JUndefined)"

definition extract_spec :: "jsval \<Rightarrow> jsval" where
  "extract_spec m =
     (if \<not> isObject m then JUndefined
      else if shapeBareNumeric m then m
      else firstNested m)"

section \<open>Source state model\<close>

text \<open>
  \<^verbatim>\<open>PanelState\<close> of \<^verbatim>\<open>Settings.tsx\<close>. The state is restored from a persisted value of
  unknown shape, so a flag can be missing at run time (\<open>None\<close>), and so can the whole
  \<^verbatim>\<open>displaySettings\<close> object. The \<^verbatim>\<open>topics\<close> object is always there: the panel builds it
  when it restores the state and every update keeps it. It is the list of its entries in
  insertion order, which is the order \<^verbatim>\<open>Object.entries\<close> enumerates names that are not
  array indices.
\<close>

record TopicConfig =
  enabled :: "bool option"
  showRoll :: "bool option"
  showPitch :: "bool option"
  showYaw :: "bool option"

record DisplaySettings =
  rollEnabled :: "bool option"
  pitchEnabled :: "bool option"
  yawEnabled :: "bool option"

record PanelState =
  topics :: "(string \<times> TopicConfig) list"
  displaySettings :: "DisplaySettings option"

datatype displayComponent = RollEnabled | PitchEnabled | YawEnabled

datatype topicComponent = ShowRoll | ShowPitch | ShowYaw

text \<open>\<^verbatim>\<open>{...a, ...b}\<close>: the entries of \<open>b\<close> written over \<open>a\<close>, in the order of \<open>b\<close>.\<close>

definition objectSpread :: "('k \<times> 'v) list \<Rightarrow> ('k \<times> 'v) list \<Rightarrow> ('k \<times> 'v) list" where
  "objectSpread a b = fold (\<lambda>(k, v). AList.update k v) b a"

text \<open>\<^verbatim>\<open>v ?? d\<close> on a flag.\<close>

definition orElse :: "'a option \<Rightarrow> 'a \<Rightarrow> 'a" where
  "orElse v d = (case v of None \<Rightarrow> d | Some b \<Rightarrow> b)"

definition getInitialState :: PanelState where
  "getInitialState =
     \<lparr>topics = [],
      displaySettings = Some \<lparr>rollEnabled = Some True, pitchEnabled = Some True, yawEnabled = Some True\<rparr>\<rparr>"

definition updateTopicStatus :: "PanelState \<Rightarrow> string \<Rightarrow> bool \<Rightarrow> PanelState" where
  "updateTopicStatus st topicName en =
     (let existingTopic = map_of (topics st) topicName in
      st\<lparr>topics := AList.update topicName
            \<lparr>enabled = Some en,
             showRoll = Some (orElse (Option.bind existingTopic showRoll) True),
             showPitch = Some (orElse (Option.bind existingTopic showPitch) True),
             showYaw = Some (orElse (Option.bind existingTopic showYaw) True)\<rparr>
            (topics st)\<rparr>)"

fun setDisplayComponent :: "displayComponent \<Rightarrow> bool \<Rightarrow> DisplaySettings \<Rightarrow> DisplaySettings" where
  "setDisplayComponent RollEnabled en d = d\<lparr>rollEnabled := Some en\<rparr>"
| "setDisplayComponent PitchEnabled en d = d\<lparr>pitchEnabled := Some en\<rparr>"
| "setDisplayComponent YawEnabled en d = d\<lparr>yawEnabled := Some en\<rparr>"

text \<open>Spreading a missing \<^verbatim>\<open>displaySettings\<close> contributes no property.\<close>

definition updateDisplaySetting :: "PanelState \<Rightarrow> displayComponent \<Rightarrow> bool \<Rightarrow> PanelState" where
  "updateDisplaySetting st component en =
     st\<lparr>displaySettings := Some (setDisplayComponent component en
          (case displaySettings st of
             None \<Rightarrow> \<lparr>rollEnabled = None, pitchEnabled = None, yawEnabled = None\<rparr>
           | Some d \<Rightarrow> d))\<rparr>"

text \<open>
  The \<^verbatim>\<open>topics\<close> object is a plain object, so a read \<^verbatim>\<open>state.topics[name]\<close> that finds
  no own entry finds the member of \<^verbatim>\<open>Object.prototype\<close> of that name, when there is one.
  Each of these members is a truthy value (a function, and for \<^verbatim>\<open>__proto__\<close> the prototype
  itself) that has none of the four flags and no enumerable property of its own. A read that
  goes on to a flag (\<^verbatim>\<open>state.topics[name]?.enabled\<close>) therefore gives \<^verbatim>\<open>undefined\<close> for an
  inherited member as for a missing entry, and is written with the own entries alone; the
  test \<^verbatim>\<open>!state.topics[name]\<close> tells the two apart.
\<close>

definition objectPrototypeNames :: "string list" where
  "objectPrototypeNames =
     [''constructor'', ''__defineGetter__'', ''__defineSetter__'', ''hasOwnProperty'',
      ''__lookupGetter__'', ''__lookupSetter__'', ''isPrototypeOf'', ''propertyIsEnumerable'',
      ''toString'', ''valueOf'', ''__proto__'', ''toLocaleString'']"

datatype 'a found = Own 'a | Inherited | NotFound

definition getTopic :: "(string \<times> TopicConfig) list \<Rightarrow> string \<Rightarrow> TopicConfig found" where
  "getTopic ts k =
     (case map_of ts k of
        Some c \<Rightarrow> Own c
      | None \<Rightarrow> if k \<in> set objectPrototypeNames then Inherited else NotFound)"

fun setTopicComponent :: "topicComponent \<Rightarrow> bool \<Rightarrow> TopicConfig \<Rightarrow> TopicConfig" where
  "setTopicComponent ShowRoll en c = c\<lparr>showRoll := Some en\<rparr>"
| "setTopicComponent ShowPitch en c = c\<lparr>showPitch := Some en\<rparr>"
| "setTopicComponent ShowYaw en c = c\<lparr>showYaw := Some en\<rparr>"


text \<open>
  \<^verbatim>\<open>updateTopicComponentStatus\<close>. Spreading an inherited member copies no property, so the
  configuration written for such a name holds the given flag alone.
\<close>

definition updateTopicComponentStatus ::
  "PanelState \<Rightarrow> string \<Rightarrow> topicComponent \<Rightarrow> bool \<Rightarrow> PanelState" where
  "updateTopicComponentStatus st topicName component en =
     (case getTopic (topics st) topicName of
        NotFound \<Rightarrow> st
      | Own c \<Rightarrow>
          st\<lparr>topics := AList.update topicName (setTopicComponent component en c) (topics st)\<rparr>
      | Inherited \<Rightarrow>
          st\<lparr>topics := AList.update topicName
                (setTopicComponent component en
                   \<lparr>enabled = None, showRoll = None, showPitch = None, showYaw = None\<rparr>)
                (topics st)\<rparr>)"

definition getEnabledTopics :: "PanelState \<Rightarrow> string list" where
  "getEnabledTopics st = map fst (filter (\<lambda>(topicName, config). enabled config = Some True) (topics st))"

section \<open>Settings projection\<close>

text \<open>
  The settings tree of the host: a node has a label and, optionally, an expansion state, a
  visibility flag, fields and child nodes; a property the source does not set (or sets to
  \<^verbatim>\<open>undefined\<close>) is \<open>None\<close>. The field \<open>fieldValue\<close> is the source's \<^verbatim>\<open>value\<close>.
\<close>

record Topic =
  name :: string
  schemaName :: string

record SettingsTreeField =
  label :: string
  input :: string
  fieldValue :: "bool option"

datatype SettingsTreeNode = SettingsTreeNode
  (nodeLabel: string)
  (defaultExpansionState: "string option")
  (visible: "bool option")
  (fields: "(string \<times> SettingsTreeField) list option")
  (children: "(string \<times> SettingsTreeNode) list option")

text \<open>The callback of \<^verbatim>\<open>transform\<close>: the node written at \<^verbatim>\<open>result[topic.name]\<close>.\<close>

definition topicNode :: "PanelState \<Rightarrow> Topic \<Rightarrow> SettingsTreeNode" where
  "topicNode st topic =
     (let isEnabled = orElse (Option.bind (map_of (topics st) (name topic)) enabled) False in
      SettingsTreeNode (name topic) (Some ''collapsed'') (Some isEnabled) None
        (if isEnabled then
           Some [(''topicSettings'',
                  SettingsTreeNode ''Topic Settings'' None None
                    (Some
                      [(''showRoll'',
                        \<lparr>label = ''Show Roll'', input = ''boolean'',
                         fieldValue = Some (orElse (Option.bind (map_of (topics st) (name topic)) showRoll) True)\<rparr>),
                       (''showPitch'',
                        \<lparr>label = ''Show Pitch'', input = ''boolean'',
                         fieldValue = Some (orElse (Option.bind (map_of (topics st) (name topic)) showPitch) True)\<rparr>),
                       (''showYaw'',
                        \<lparr>label = ''Show Yaw'', input = ''boolean'',
                         fieldValue = Some (orElse (Option.bind (map_of (topics st) (name topic)) showYaw) True)\<rparr>)])
                    None)]
         else None))"

text \<open>
  \<^verbatim>\<open>buildSettingsTree\<close>. The assignment \<^verbatim>\<open>result[topic.name] = node\<close> adds or replaces
  the own property of that name, except for the name \<^verbatim>\<open>__proto__\<close>: there it sets the
  prototype of the accumulator and adds no property. The read
  \<^verbatim>\<open>state.displaySettings.rollEnabled\<close> throws when \<^verbatim>\<open>displaySettings\<close> is missing.
\<close>

definition buildSettingsTree ::
  "PanelState \<Rightarrow> Topic list \<Rightarrow> error + (string \<times> SettingsTreeNode) list" where
  "buildSettingsTree st orientationTopics =
     (let topicNodes =
            fold (\<lambda>topic result.
                    if name topic = ''__proto__'' then result
                    else AList.update (name topic) (topicNode st topic) result)
              orientationTopics []
      in case displaySettings st of
           None \<Rightarrow> Inl TypeError
         | Some d \<Rightarrow>
             Inr [(''general'',
                   SettingsTreeNode ''Display Elements'' None None
                     (Some
                       [(''rollEnabled'',
                         \<lparr>label = ''Roll Display'', input = ''boolean'', fieldValue = rollEnabled d\<rparr>),
                        (''pitchEnabled'',
                         \<lparr>label = ''Pitch Display'', input = ''boolean'', fieldValue = pitchEnabled d\<rparr>),
                        (''yawEnabled'',
                         \<lparr>label = ''Yaw Display'', input = ''boolean'', fieldValue = yawEnabled d\<rparr>)])
                     None),
                  (''topics'', SettingsTreeNode ''Topics'' None None None (Some topicNodes))])"

section \<open>Panel: restoring the state\<close>

text \<open>
  \<^verbatim>\<open>context.initialState\<close> cast to \<^verbatim>\<open>Partial<PanelState>\<close>: each of the two keys can be
  missing, hold \<^verbatim>\<open>null\<close>, or hold an object whose own flags can be missing. Every entry of
  the persisted topics is an object: an entry that holds \<^verbatim>\<open>null\<close> is not represented. Keys
  other than these two are copied and never read; they are not represented.
\<close>

datatype 'a entry = NoKey | NullValue | Value 'a

record SavedState =
  savedTopics :: "(string \<times> TopicConfig) list entry"
  savedDisplaySettings :: "DisplaySettings entry"

text \<open>
  The initializer of \<^verbatim>\<open>useState<PanelState>\<close>; \<open>None\<close> is an initial state that is
  \<^verbatim>\<open>undefined\<close> or \<^verbatim>\<open>null\<close>. The first definition is \<^verbatim>\<open>savedState?.topics ?? {}\<close>.
  None of its operations can throw, so the result is a state and not a sum.
\<close>

definition savedTopicsOf :: "SavedState option \<Rightarrow> (string \<times> TopicConfig) list" where
  "savedTopicsOf savedState =
     (case savedState of
        None \<Rightarrow> []
      | Some sv \<Rightarrow> (case savedTopics sv of Value t \<Rightarrow> t | NoKey \<Rightarrow> [] | NullValue \<Rightarrow> []))"

definition initialPanelState :: "SavedState option \<Rightarrow> PanelState" where
  "initialPanelState savedState =
     \<lparr>topics = objectSpread (topics getInitialState) (savedTopicsOf savedState),
      displaySettings =
        (case savedState of
           None \<Rightarrow> displaySettings getInitialState
         | Some sv \<Rightarrow>
             (case savedDisplaySettings sv of
                NoKey \<Rightarrow> displaySettings getInitialState
              | NullValue \<Rightarrow> None
              | Value d \<Rightarrow> Some d))\<rparr>"

text \<open>
  The deep merge of a persisted state over the defaults, as the specification words it: a
  persisted flag wins, a missing one takes the default. The defaults hold no topic, so the
  persisted topics are taken as they are.
\<close>

definition deepMergeDisplaySettings :: "DisplaySettings \<Rightarrow> DisplaySettings \<Rightarrow> DisplaySettings" where
  "deepMergeDisplaySettings d sv =
     \<lparr>rollEnabled = (case rollEnabled sv of None \<Rightarrow> rollEnabled d | Some b \<Rightarrow> Some b),
      pitchEnabled = (case pitchEnabled sv of None \<Rightarrow> pitchEnabled d | Some b \<Rightarrow> Some b),
      yawEnabled = (case yawEnabled sv of None \<Rightarrow> yawEnabled d | Some b \<Rightarrow> Some b)\<rparr>"

definition deepMerge_spec :: "SavedState option \<Rightarrow> PanelState" where
  "deepMerge_spec savedState =
     \<lparr>topics = objectSpread (topics getInitialState) (savedTopicsOf savedState),
      displaySettings =
        (case savedState of
           None \<Rightarrow> displaySettings getInitialState
         | Some sv \<Rightarrow>
             (case savedDisplaySettings sv of
                Value d \<Rightarrow> map_option (\<lambda>d0. deepMergeDisplaySettings d0 d) (displaySettings getInitialState)
              | NoKey \<Rightarrow> displaySettings getInitialState
              | NullValue \<Rightarrow> displaySettings getInitialState))\<rparr>"

text \<open>Every flag of a configuration, of the display settings, of a state is defined.\<close>

definition completeTopicConfig :: "TopicConfig \<Rightarrow> bool" where
  "completeTopicConfig c =
     (enabled c \<noteq> None \<and> showRoll c \<noteq> None \<and> showPitch c \<noteq> None \<and> showYaw c \<noteq> None)"

definition completeDisplaySettings :: "DisplaySettings \<Rightarrow> bool" where
  "completeDisplaySettings d =
     (rollEnabled d \<noteq> None \<and> pitchEnabled d \<noteq> None \<and> yawEnabled d \<noteq> None)"

definition completeState :: "PanelState \<Rightarrow> bool" where
  "completeState st =
     ((case displaySettings st of None \<Rightarrow> False | Some d \<Rightarrow> completeDisplaySettings d) \<and>
      list_all (\<lambda>(topicName, c). completeTopicConfig c) (topics st))"

section \<open>Panel: caches and the update cycle\<close>

text \<open>
  The component state of \<^verbatim>\<open>OrientationPanel2D\<close>: the two \<^verbatim>\<open>Map\<close>s (lists of entries in
  insertion order: \<^verbatim>\<open>set\<close> on a present key keeps its place, on a new key appends), the
  panel state, the argument of the last \<^verbatim>\<open>context.subscribe\<close> call and the console. The
  topic catalog and the completion callback are not represented.
\<close>

record MessageEvent =
  topic :: string
  message :: jsval

record Panel =
  orientations :: "(string \<times> Orientation) list"
  messages :: "(string \<times> MessageEvent) list"
  state :: PanelState
  subscribed :: "string list"
  console :: "diagnostic list"

definition initialPanel :: "SavedState option \<Rightarrow> Panel" where
  "initialPanel savedState =
     \<lparr>orientations = [], messages = [], state = initialPanelState savedState,
      subscribed = getEnabledTopics (initialPanelState savedState), console = []\<rparr>"

text \<open>\<^verbatim>\<open>Map.has\<close>.\<close>

definition has :: "('k \<times> 'v) list \<Rightarrow> 'k \<Rightarrow> bool" where
  "has m k = (map_of m k \<noteq> None)"

text \<open>
  \<^verbatim>\<open>handleTopicEnabledChange\<close>: the state updater together with the cache updates it
  queues.
\<close>

definition handleTopicEnabledChange :: "string \<Rightarrow> bool \<Rightarrow> Panel \<Rightarrow> Panel" where
  "handleTopicEnabledChange topicName en p =
     (let newState = updateTopicStatus (state p) topicName en;
          enabledTopics = getEnabledTopics newState;
          p1 = p\<lparr>subscribed := enabledTopics\<rparr>
      in if \<not> en \<and> has (messages p) topicName then
           p1\<lparr>messages := AList.delete topicName (messages p),
              orientations := AList.delete topicName (orientations p),
              state := newState\<rparr>
         else p1\<lparr>state := newState\<rparr>)"

text \<open>\<^verbatim>\<open>state.topics[t]?.enabled\<close> as a condition.\<close>

definition topicEnabled :: "PanelState \<Rightarrow> string \<Rightarrow> bool" where
  "topicEnabled st t = (Option.bind (map_of (topics st) t) enabled = Some True)"

text \<open>
  \<^verbatim>\<open>context.onRender\<close>; \<open>None\<close> is a render state without \<^verbatim>\<open>currentFrame\<close>.
\<close>

definition onRender :: "MessageEvent list option \<Rightarrow> Panel \<Rightarrow> Panel" where
  "onRender currentFrame p =
     (case currentFrame of
        None \<Rightarrow> p
      | Some frame \<Rightarrow>
          if length frame = 0 then p
          else p\<lparr>messages :=
                 fold (\<lambda>msg newMessages.
                         if topicEnabled (state p) (topic msg)
                         then AList.update (topic msg) msg newMessages
                         else newMessages)
                   frame (messages p)\<rparr>)"

fun foldE :: "('a \<Rightarrow> 's \<Rightarrow> error + 's) \<Rightarrow> 'a list \<Rightarrow> 's \<Rightarrow> error + 's" where
  "foldE f [] a = Inr a"
| "foldE f (x # xs) a = bindE (f x a) (foldE f xs)"

text \<open>The body of the effect that follows \<^verbatim>\<open>messages\<close>, for one entry of the map.\<close>

definition processMessage ::
  "FloatOps \<Rightarrow> (string \<Rightarrow> jsnum) \<Rightarrow> string \<times> MessageEvent \<Rightarrow> Panel \<Rightarrow> error + Panel" where
  "processMessage fp sn entry p =
     bindE (extractQuaternion (message (snd entry))) (\<lambda>quaternion.
       if \<not> truthy quaternion then Inr p
       else bindE (quaternionToEuler fp sn quaternion) (\<lambda>(logged, euler).
         Inr (p\<lparr>orientations := AList.update (fst entry) euler (orientations p),
                console := console p @ logged\<rparr>)))"

definition processMessages :: "FloatOps \<Rightarrow> (string \<Rightarrow> jsnum) \<Rightarrow> Panel \<Rightarrow> error + Panel" where
  "processMessages fp sn p = foldE (processMessage fp sn) (messages p) p"

text \<open>
  The effect that follows \<^verbatim>\<open>state\<close>: it unsubscribes, then subscribes to the enabled
  topics when there are any.
\<close>

definition subscriptionEffect :: "Panel \<Rightarrow> Panel" where
  "subscriptionEffect p =
     (let enabledTopics = getEnabledTopics (state p) in
      if length enabledTopics > 0 then p\<lparr>subscribed := enabledTopics\<rparr> else p\<lparr>subscribed := []\<rparr>)"

text \<open>
  One event of the host with the effects it triggers, run to completion before the next
  event: a render callback, or one of the three kinds of settings edit that the action
  handler dispatches. \<^verbatim>\<open>messages\<close> is replaced (and its effect runs) by a render callback
  with a non-empty frame and by disabling a topic that has a cached message.
\<close>

datatype event =
    Render "MessageEvent list option"
  | TopicEnabledChange string bool
  | DisplaySettingChange displayComponent bool
  | TopicComponentChange string topicComponent bool

fun step :: "FloatOps \<Rightarrow> (string \<Rightarrow> jsnum) \<Rightarrow> event \<Rightarrow> Panel \<Rightarrow> error + Panel" where
  "step fp sn (Render currentFrame) p =
     (case currentFrame of
        None \<Rightarrow> Inr p
      | Some frame \<Rightarrow>
          if length frame = 0 then Inr p else processMessages fp sn (onRender currentFrame p))"
| "step fp sn (TopicEnabledChange topicName en) p =
     (if \<not> en \<and> has (messages p) topicName
      then processMessages fp sn (subscriptionEffect (handleTopicEnabledChange topicName en p))
      else Inr (subscriptionEffect (handleTopicEnabledChange topicName en p)))"
| "step fp sn (DisplaySettingChange component en) p =
     Inr (subscriptionEffect (p\<lparr>state := updateDisplaySetting (state p) component en\<rparr>))"
| "step fp sn (TopicComponentChange topicName component en) p =
     Inr (subscriptionEffect (p\<lparr>state := updateTopicComponentStatus (state p) topicName component en\<rparr>))"

inductive reachable :: "FloatOps \<Rightarrow> (string \<Rightarrow> jsnum) \<Rightarrow> Panel \<Rightarrow> bool"
  for fp :: FloatOps and sn :: "string \<Rightarrow> jsnum" where
  reachable_init: "reachable fp sn (initialPanel savedState)"
| reachable_step: "reachable fp sn p \<Longrightarrow> step fp sn ev p = Inr p' \<Longrightarrow> reachable fp sn p'"

text \<open>
  The keys of a map, and the invariant of the two caches: a topic with a cached orientation
  has a cached message, and a topic with a cached message is enabled.
\<close>

definition keysOf :: "('k \<times> 'v) list \<Rightarrow> 'k set" where
  "keysOf m = fst ` set m"

definition cacheInv :: "Panel \<Rightarrow> bool" where
  "cacheInv p =
     (keysOf (orientations p) \<subseteq> keysOf (messages p) \<and>
      (\<forall>t \<in> keysOf (messages p). topicEnabled (state p) t))"

definition sameButOrientations :: "Panel \<Rightarrow> Panel \<Rightarrow> bool" where
  "sameButOrientations p a =
     (messages a = messages p \<and> state a = state p \<and> subscribed a = subscribed p)"


section \<open>Panel: visual refresh\<close>

definition MAX_TOPICS :: nat where
  "MAX_TOPICS = 9"

definition messageColors :: "string list" where
  "messageColors =
     [''var(--color-message-1-transparent, rgba(255, 0, 0, 0.75))'',
      ''var(--color-message-2-transparent, rgba(0, 255, 0, 0.75))'',
      ''var(--color-message-3-transparent, rgba(0, 0, 255, 0.75))'',
      ''var(--color-message-4-transparent, rgba(255, 255, 0, 0.75))'',
      ''var(--color-message-5-transparent, rgba(0, 255, 255, 0.75))'',
      ''var(--color-message-6-transparent, rgba(255, 0, 255, 0.75))'',
      ''var(--color-message-7-transparent, rgba(255, 128, 0, 0.75))'',
      ''var(--color-message-8-transparent, rgba(128, 0, 255, 0.75))'']"

definition colorClasses :: "string list" where
  "colorClasses =
     [''message-1'', ''message-2'', ''message-3'', ''message-4'',
      ''message-5'', ''message-6'', ''message-7'', ''message-8'']"

text \<open>An array read: \<^verbatim>\<open>undefined\<close> past the end.\<close>

definition arrayAt :: "'a list \<Rightarrow> nat \<Rightarrow> 'a option" where
  "arrayAt xs i = (if i < length xs then Some (xs ! i) else None)"

text \<open>A string inside a template literal: \<^verbatim>\<open>undefined\<close> prints as its name.\<close>

definition interpolate :: "string option \<Rightarrow> string" where
  "interpolate v = (case v of None \<Rightarrow> ''undefined'' | Some s \<Rightarrow> s)"

text \<open>
  An indicator element: its class, its background colour (\<open>None\<close> when the value assigned
  is \<^verbatim>\<open>undefined\<close>) and the angle of its \<^verbatim>\<open>rotate(...deg)\<close> transform. A display holds the
  indicators under it in document order; \<open>None\<close> is a display that is not mounted (its ref is
  \<^verbatim>\<open>null\<close>). The yaw display stands for its compass face, which is mounted with it.
\<close>

record Indicator =
  className :: string
  backgroundColor :: "string option"
  rotate :: jsnum

record Displays =
  rollDisplay :: "Indicator list option"
  pitchDisplay :: "Indicator list option"
  yawDisplay :: "Indicator list option"

definition appendChild :: "Indicator \<Rightarrow> Indicator list option \<Rightarrow> Indicator list option" where
  "appendChild indicator display = map_option (\<lambda>els. els @ [indicator]) display"

record RefreshLoop =
  topicIndex :: nat
  dom :: Displays

text \<open>The callback of \<^verbatim>\<open>orientations.forEach\<close> in the refresh effect.\<close>

definition addIndicators ::
  "PanelState \<Rightarrow> bool \<Rightarrow> bool \<Rightarrow> bool \<Rightarrow> string \<times> Orientation \<Rightarrow> RefreshLoop \<Rightarrow> RefreshLoop" where
  "addIndicators st rollOn pitchOn yawOn entry loop =
     (if topicIndex loop \<ge> MAX_TOPICS then loop
      else case map_of (topics st) (fst entry) of
        None \<Rightarrow> loop
      | Some topicConfig \<Rightarrow>
          if enabled topicConfig \<noteq> Some True then loop
          else
            let colorValue = arrayAt messageColors (topicIndex loop);
                colorClass = arrayAt colorClasses (topicIndex loop);
                d0 = dom loop;
                d1 = (if rollOn \<and> showRoll topicConfig = Some True
                      then d0\<lparr>rollDisplay := appendChild
                             \<lparr>className = ''topic-indicator '' @ interpolate colorClass,
                              backgroundColor = colorValue,
                              rotate = roll (snd entry)\<rparr> (rollDisplay d0)\<rparr>
                      else d0);
                d2 = (if pitchOn \<and> showPitch topicConfig = Some True
                      then d1\<lparr>pitchDisplay := appendChild
                             \<lparr>className = ''topic-indicator '' @ interpolate colorClass,
                              backgroundColor = colorValue,
                              rotate = pitch (snd entry)\<rparr> (pitchDisplay d1)\<rparr>
                      else d1);
                d3 = (if yawOn \<and> showYaw topicConfig = Some True
                      then d2\<lparr>yawDisplay := appendChild
                             \<lparr>className = ''yaw-indicator '' @ interpolate colorClass,
                              backgroundColor = colorValue,
                              rotate = yaw (snd entry)\<rparr> (yawDisplay d2)\<rparr>
                      else d2)
            in \<lparr>topicIndex = topicIndex loop + 1, dom = d3\<rparr>)"

text \<open>
  The refresh effect. The read \<^verbatim>\<open>state.displaySettings.rollEnabled\<close> throws when
  \<^verbatim>\<open>displaySettings\<close> is missing.
\<close>

definition updateDisplays ::
  "Displays \<Rightarrow> (string \<times> Orientation) list \<Rightarrow> PanelState \<Rightarrow> error + Displays" where
  "updateDisplays d orients st =
     (case displaySettings st of
        None \<Rightarrow> Inl TypeError
      | Some ds \<Rightarrow>
          let rollOn = (rollEnabled ds = Some True \<and> rollDisplay d \<noteq> None);
              pitchOn = (pitchEnabled ds = Some True \<and> pitchDisplay d \<noteq> None);
              yawOn = (yawEnabled ds = Some True \<and> yawDisplay d \<noteq> None)
          in if \<not> rollOn \<and> \<not> pitchOn \<and> \<not> yawOn then Inr d
             else
               let cleared = \<lparr>rollDisplay = (if rollOn then Some [] else rollDisplay d),
                              pitchDisplay = (if pitchOn then Some [] else pitchDisplay d),
                              yawDisplay = (if yawOn then Some [] else yawDisplay d)\<rparr>
               in Inr (dom (fold (addIndicators st rollOn pitchOn yawOn) orients
                                 \<lparr>topicIndex = 0, dom = cleared\<rparr>)))"

section \<open>Panel: mounting\<close>

text \<open>
  The display elements that the component's markup mounts. The read
  \<^verbatim>\<open>state.displaySettings.rollEnabled\<close> throws when \<^verbatim>\<open>displaySettings\<close> is missing.
\<close>

definition renderDisplays :: "PanelState \<Rightarrow> error + Displays" where
  "renderDisplays st =
     (case displaySettings st of
        None \<Rightarrow> Inl TypeError
      | Some ds \<Rightarrow>
          Inr \<lparr>rollDisplay = (if rollEnabled ds = Some True then Some [] else None),
               pitchDisplay = (if pitchEnabled ds = Some True then Some [] else None),
               yawDisplay = (if yawEnabled ds = Some True then Some [] else None)\<rparr>)"

text \<open>
  Panel initialization: the initializer of the state, the first render, and the effects of
  the first render that read the state, in the order of the source: the settings tree (no
  topic is known yet), the subscriptions, and the visual refresh of the empty cache.
\<close>

definition mountPanel :: "SavedState option \<Rightarrow> error + Panel" where
  "mountPanel savedState =
     (let st = initialPanelState savedState in
      bindE (renderDisplays st) (\<lambda>displays.
      bindE (buildSettingsTree st []) (\<lambda>tree.
      bindE (updateDisplays displays [] st) (\<lambda>refreshed.
        Inr (initialPanel savedState)))))"

text \<open>
  An instance of the arithmetic, for running the functions on examples that do no
  arithmetic: it stands for no runtime.
\<close>

definition nanOps :: FloatOps where
  "nanOps =
     \<lparr>fmul = (\<lambda>a b. NaN), fadd = (\<lambda>a b. NaN), fsub = (\<lambda>a b. NaN), fdiv = (\<lambda>a b. NaN),
      fge = (\<lambda>a b. False), Math_abs = (\<lambda>a. NaN), Math_sign = (\<lambda>a. NaN),
      Math_asin = (\<lambda>a. NaN), Math_atan2 = (\<lambda>a b. NaN), Math_PI = NaN\<rparr>"

text \<open>
  A scenario for the refresh: ten sources, all enabled with every axis shown, each with a
  cached orientation whose roll tells the sources apart.
\<close>

definition tenSources :: "(string \<times> real) list" where
  "tenSources =
     [(''/imu0'', 0), (''/imu1'', 10), (''/imu2'', 20), (''/imu3'', 30), (''/imu4'', 40),
      (''/imu5'', 50), (''/imu6'', 60), (''/imu7'', 70), (''/imu8'', 80), (''/imu9'', 90)]"

definition tenSourcesState :: PanelState where
  "tenSourcesState =
     \<lparr>topics = map (\<lambda>(topicName, angle).
                  (topicName, \<lparr>enabled = Some True, showRoll = Some True,
                               showPitch = Some True, showYaw = Some True\<rparr>)) tenSources,
      displaySettings =
        Some \<lparr>rollEnabled = Some True, pitchEnabled = Some True, yawEnabled = Some True\<rparr>\<rparr>"

definition tenSourcesCache :: "(string \<times> Orientation) list" where
  "tenSourcesCache =
     map (\<lambda>(topicName, angle). (topicName, \<lparr>roll = Finite angle, pitch = Finite 0, yaw = Finite 0\<rparr>))
       tenSources"

text \<open>
  A scenario for the update cycle: the panel after \<open>/imu\<close> is enabled, after one message of
  \<open>/imu\<close> is delivered, and after \<open>/imu\<close> is disabled. The quaternion of the message has no
  \<open>w\<close>, so the conversion does no arithmetic: it caches the zero orientation and writes a
  diagnostic.
\<close>

definition imuMessage :: MessageEvent where
  "imuMessage =
     \<lparr>topic = ''/imu'',
      message = JObj [(''orientation'',
        JObj [(''x'', JNum (Finite 0)), (''y'', JNum (Finite 0)), (''z'', JNum (Finite 0))])]\<rparr>"

definition panelEnabled :: Panel where
  "panelEnabled =
     \<lparr>orientations = [], messages = [],
      state = \<lparr>topics = [(''/imu'', \<lparr>enabled = Some True, showRoll = Some True,
                                      showPitch = Some True, showYaw = Some True\<rparr>)],
               displaySettings = Some \<lparr>rollEnabled = Some True, pitchEnabled = Some True,
                                       yawEnabled = Some True\<rparr>\<rparr>,
      subscribed = [''/imu''], console = []\<rparr>"

definition panelFed :: Panel where
  "panelFed =
     panelEnabled
       \<lparr>orientations := [(''/imu'', \<lparr>roll = Finite 0, pitch = Finite 0, yaw = Finite 0\<rparr>)],
        messages := [(''/imu'', imuMessage)],
        console := [Warn ''Invalid quaternion:''
                      (JObj [(''x'', JNum (Finite 0)), (''y'', JNum (Finite 0)), (''z'', JNum (Finite 0))])]\<rparr>"

definition panelDisabled :: Panel where
  "panelDisabled =
     \<lparr>orientations = [], messages = [],
      state = \<lparr>topics = [(''/imu'', \<lparr>enabled = Some False, showRoll = Some True,
                                      showPitch = Some True, showYaw = Some True\<rparr>)],
               displaySettings = Some \<lparr>rollEnabled = Some True, pitchEnabled = Some True,
                                       yawEnabled = Some True\<rparr>\<rparr>,
      subscribed = [],
      console = [Warn ''Invalid quaternion:''
                   (JObj [(''x'', JNum (Finite 0)), (''y'', JNum (Finite 0)), (''z'', JNum (Finite 0))])]\<rparr>"

section \<open>Properties of the value model\<close>

lemma truthy_not_nullish: "truthy v \<Longrightarrow> \<not> nullish v"
  by (cases v) auto

lemma isObject_JObj: "isObject m \<Longrightarrow> \<exists>kvs. m = JObj kvs"
  by (cases m) (auto simp: isObject_def)

section \<open>Properties of the Euler converter\<close>

lemma quaternionToEuler_total: "\<exists>r. quaternionToEuler fp sn q = Inr r"
  by (cases "truthy q")
    (auto simp: quaternionToEuler_def bindE_def getProp_def Let_def truthy_not_nullish)

lemma quaternionToEuler_guard:
  assumes "nullish q \<or> typeof (ownProp q ''w'') \<noteq> ''number''"
  shows "quaternionToEuler fp sn q =
    Inr ([Warn ''Invalid quaternion:'' q], \<lparr>roll = Finite 0, pitch = Finite 0, yaw = Finite 0\<rparr>)"
  using assms by (cases q) (auto simp: quaternionToEuler_def bindE_def getProp_def)

text \<open>
  Claim C6. For an input that is \<^verbatim>\<open>null\<close> or \<^verbatim>\<open>undefined\<close>, or whose \<open>w\<close> is missing or
  not a number, the converter returns exactly \<open>{roll: 0, pitch: 0, yaw: 0}\<close>, writes one
  diagnostic to the console and does not throw.
\<close>

theorem quaternionToEuler_invalid_input:
  assumes "nullish q \<or> typeof (ownProp q ''w'') \<noteq> ''number''"
  shows "quaternionToEuler fp sn q =
    Inr ([Warn ''Invalid quaternion:'' q], \<lparr>roll = Finite 0, pitch = Finite 0, yaw = Finite 0\<rparr>)"
  using assms by (rule quaternionToEuler_guard)

theorem quaternionToEuler_invalid_input_witness:
  "quaternionToEuler nanOps (\<lambda>s. NaN) JNull =
     Inr ([Warn ''Invalid quaternion:'' JNull], \<lparr>roll = Finite 0, pitch = Finite 0, yaw = Finite 0\<rparr>)
   \<and> quaternionToEuler nanOps (\<lambda>s. NaN) (JObj [(''x'', JNum (Finite 0)), (''w'', JStr ''1'')]) =
     Inr ([Warn ''Invalid quaternion:'' (JObj [(''x'', JNum (Finite 0)), (''w'', JStr ''1'')])],
          \<lparr>roll = Finite 0, pitch = Finite 0, yaw = Finite 0\<rparr>)"
proof -
  have h1: "nullish JNull \<or> typeof (ownProp JNull ''w'') \<noteq> ''number''" by simp
  have h2: "nullish (JObj [(''x'', JNum (Finite 0)), (''w'', JStr ''1'')]) \<or>
            typeof (ownProp (JObj [(''x'', JNum (Finite 0)), (''w'', JStr ''1'')]) ''w'') \<noteq> ''number''"
    by simp
  show ?thesis
    using quaternionToEuler_invalid_input [OF h1, where fp = nanOps and sn = "\<lambda>s. NaN"]
      quaternionToEuler_invalid_input [OF h2, where fp = nanOps and sn = "\<lambda>s. NaN"]
    by simp
qed

section \<open>Properties of the extractor\<close>

lemma extractQuaternion_eq:
  "extractQuaternion m =
     Inr (if \<not> isObject m then JUndefined else if shapeBare m then m else firstNested m)"
proof (cases "isObject m")
  case False
  then show ?thesis by (simp add: extractQuaternion_def isObject_def)
next
  case True
  then obtain kvs where m: "m = JObj kvs" using isObject_JObj by blast
  show ?thesis
    unfolding m
    by (simp add: extractQuaternion_def isObject_def shapeBare_def firstNested_def nestedShapes_def
        bindE_def getProp_def optProp_def Let_def)
qed

lemma shapeBareNumeric_shapeBare: "shapeBareNumeric m \<Longrightarrow> shapeBare m"
  by (auto simp: shapeBareNumeric_def shapeBare_def)

lemma extractQuaternion_truthy:
  assumes "extractQuaternion m = Inr q" and "q \<noteq> JUndefined"
  shows "truthy q"
proof -
  have "firstNested m \<noteq> JUndefined \<Longrightarrow> truthy (firstNested m)"
    by (auto simp: firstNested_def split: option.splits dest: find_Some_iff [THEN iffD1])
  then show ?thesis
    using assms by (auto simp: extractQuaternion_eq isObject_def split: if_splits)
qed

text \<open>
  Claim C2, as the code has it. The extractor never throws and returns the first match of
  the six shapes, in their order: the message itself when none of its \<open>x\<close>, \<open>y\<close>, \<open>z\<close>, \<open>w\<close>
  is \<^verbatim>\<open>undefined\<close>, numbers or not; then \<open>orientation\<close>, \<open>pose.orientation\<close>,
  \<open>pose.pose.orientation\<close>, \<open>rotation\<close>, \<open>transform.rotation\<close>, each when its value is truthy;
  \<^verbatim>\<open>undefined\<close> when none matches or the message is not an object. So a truthy
  \<open>orientation\<close> wins over \<open>pose.orientation\<close>, and the result is that of the specification's
  list whenever the four components are all numbers or not all present.
\<close>

theorem extractQuaternion_first_match:
  "extractQuaternion m =
     Inr (if \<not> isObject m then JUndefined else if shapeBare m then m else firstNested m)
   \<and> (shapeBareNumeric m \<longrightarrow> shapeBare m)
   \<and> (isObject m \<and> \<not> shapeBare m \<and> truthy (ownProp m ''orientation'') \<longrightarrow>
        extractQuaternion m = Inr (ownProp m ''orientation''))
   \<and> (shapeBareNumeric m \<or> \<not> shapeBare m \<longrightarrow> extractQuaternion m = Inr (extract_spec m))"
proof (intro conjI impI)
  show "extractQuaternion m =
     Inr (if \<not> isObject m then JUndefined else if shapeBare m then m else firstNested m)"
    by (rule extractQuaternion_eq)
next
  assume "shapeBareNumeric m"
  then show "shapeBare m" by (rule shapeBareNumeric_shapeBare)
next
  assume a: "isObject m \<and> \<not> shapeBare m \<and> truthy (ownProp m ''orientation'')"
  then obtain kvs where m: "m = JObj kvs" using isObject_JObj by blast
  show "extractQuaternion m = Inr (ownProp m ''orientation'')"
    using a unfolding m
    by (simp add: extractQuaternion_eq firstNested_def nestedShapes_def optProp_def)
next
  assume "shapeBareNumeric m \<or> \<not> shapeBare m"
  then show "extractQuaternion m = Inr (extract_spec m)"
    using shapeBareNumeric_shapeBare [of m]
    by (auto simp: extractQuaternion_eq extract_spec_def)
qed

text \<open>
  The theorem at an odometry message, whose quaternion sits at \<open>pose.pose.orientation\<close>, and
  at a message with both \<open>orientation\<close> and \<open>pose.orientation\<close>.
\<close>

theorem extractQuaternion_first_match_witness:
  "extractQuaternion
     (JObj [(''pose'', JObj [(''pose'', JObj [(''orientation'',
        JObj [(''x'', JNum (Finite 0)), (''y'', JNum (Finite 0)), (''z'', JNum (Finite 0)), (''w'', JNum (Finite 1))])])])]) =
     Inr (JObj [(''x'', JNum (Finite 0)), (''y'', JNum (Finite 0)), (''z'', JNum (Finite 0)), (''w'', JNum (Finite 1))])
   \<and> extractQuaternion
     (JObj [(''pose'', JObj [(''orientation'', JObj [(''w'', JNum (Finite 0))])]),
            (''orientation'', JObj [(''w'', JNum (Finite 1))])]) =
     Inr (JObj [(''w'', JNum (Finite 1))])
   \<and> extractQuaternion (JObj []) = Inr JUndefined"
  using extractQuaternion_first_match
      [of "JObj [(''pose'', JObj [(''pose'', JObj [(''orientation'',
        JObj [(''x'', JNum (Finite 0)), (''y'', JNum (Finite 0)), (''z'', JNum (Finite 0)), (''w'', JNum (Finite 1))])])])]"]
    extractQuaternion_first_match
      [of "JObj [(''pose'', JObj [(''orientation'', JObj [(''w'', JNum (Finite 0))])]),
            (''orientation'', JObj [(''w'', JNum (Finite 1))])]"]
    extractQuaternion_first_match [of "JObj []"]
  by (simp add: isObject_def shapeBare_def firstNested_def nestedShapes_def optProp_def)

text \<open>
  Claim C2 as stated fails: a message whose \<open>x\<close>, \<open>y\<close>, \<open>z\<close>, \<open>w\<close> are strings matches no
  shape of the specification's list, which gives none, and the extractor returns the message.
\<close>

theorem extractQuaternion_numeric_counterexample:
  "extractQuaternion
     (JObj [(''x'', JStr ''a''), (''y'', JStr ''b''), (''z'', JStr ''c''), (''w'', JStr ''d'')]) \<noteq>
   Inr (extract_spec
     (JObj [(''x'', JStr ''a''), (''y'', JStr ''b''), (''z'', JStr ''c''), (''w'', JStr ''d'')]))"
  by (simp add: extractQuaternion_eq extract_spec_def isObject_def shapeBare_def shapeBareNumeric_def
      firstNested_def nestedShapes_def optProp_def)

section \<open>Properties of the source state model\<close>





lemma getTopic_Inherited:
  "map_of ts k = None \<Longrightarrow> k \<in> set objectPrototypeNames \<Longrightarrow> getTopic ts k = Inherited"
  by (simp add: getTopic_def)




text \<open>
  Claim C8, as the code has it. \<^verbatim>\<open>updateTopicStatus\<close> returns a state whose configuration
  for the name has the given \<open>enabled\<close> value. When the name had no configuration, the three
  show-flags are true. When it had one, each of its show-flags that is defined is kept
  exactly, and each one that is missing becomes true. The configurations of the other names
  and the display settings are unchanged, and the names of the result are those of the input
  together with the given one: no configuration is deleted. The input is a value and is not
  changed.
\<close>

theorem updateTopicStatus_upsert:
  "(\<exists>c'. map_of (topics (updateTopicStatus st n en)) n = Some c' \<and> enabled c' = Some en \<and>
      (map_of (topics st) n = None \<longrightarrow>
         showRoll c' = Some True \<and> showPitch c' = Some True \<and> showYaw c' = Some True) \<and>
      (\<forall>c. map_of (topics st) n = Some c \<longrightarrow>
         showRoll c' = Some (orElse (showRoll c) True) \<and>
         showPitch c' = Some (orElse (showPitch c) True) \<and>
         showYaw c' = Some (orElse (showYaw c) True) \<and>
         (showRoll c \<noteq> None \<longrightarrow> showRoll c' = showRoll c) \<and>
         (showPitch c \<noteq> None \<longrightarrow> showPitch c' = showPitch c) \<and>
         (showYaw c \<noteq> None \<longrightarrow> showYaw c' = showYaw c))) \<and>
   (\<forall>m. m \<noteq> n \<longrightarrow> map_of (topics (updateTopicStatus st n en)) m = map_of (topics st) m) \<and>
   displaySettings (updateTopicStatus st n en) = displaySettings st \<and>
   set (map fst (topics (updateTopicStatus st n en))) = insert n (set (map fst (topics st)))"
  by (auto simp: updateTopicStatus_def update_conv' Let_def orElse_def dom_update
      split: option.splits)

text \<open>
  The theorem at a state with the source \<open>/imu\<close>: disabling \<open>/imu\<close> keeps its show-flags, and
  enabling the unseen \<open>/odom\<close> appends a configuration with all show-flags true.
\<close>

theorem updateTopicStatus_upsert_witness:
  "updateTopicStatus
     \<lparr>topics = [(''/imu'', \<lparr>enabled = Some True, showRoll = Some True, showPitch = Some False, showYaw = Some False\<rparr>)],
      displaySettings = None\<rparr> ''/imu'' False =
     \<lparr>topics = [(''/imu'', \<lparr>enabled = Some False, showRoll = Some True, showPitch = Some False, showYaw = Some False\<rparr>)],
      displaySettings = None\<rparr>
   \<and> updateTopicStatus
     \<lparr>topics = [(''/imu'', \<lparr>enabled = Some True, showRoll = Some True, showPitch = Some False, showYaw = Some False\<rparr>)],
      displaySettings = None\<rparr> ''/odom'' True =
     \<lparr>topics = [(''/imu'', \<lparr>enabled = Some True, showRoll = Some True, showPitch = Some False, showYaw = Some False\<rparr>),
                (''/odom'', \<lparr>enabled = Some True, showRoll = Some True, showPitch = Some True, showYaw = Some True\<rparr>)],
      displaySettings = None\<rparr>"
  using updateTopicStatus_upsert
      [where st = "\<lparr>topics = [(''/imu'', \<lparr>enabled = Some True, showRoll = Some True, showPitch = Some False, showYaw = Some False\<rparr>)],
                     displaySettings = None\<rparr>" and n = "''/imu''" and en = False]
    updateTopicStatus_upsert
      [where st = "\<lparr>topics = [(''/imu'', \<lparr>enabled = Some True, showRoll = Some True, showPitch = Some False, showYaw = Some False\<rparr>)],
                     displaySettings = None\<rparr>" and n = "''/odom''" and en = True]
  by (simp add: updateTopicStatus_def orElse_def)

text \<open>
  Claim C8 as stated fails: in the state restored from a persisted configuration whose entry
  for \<open>/imu\<close> has no \<open>showRoll\<close>, disabling \<open>/imu\<close> does not preserve that flag: it was
  missing, which hides the roll of the source, and it becomes true.
\<close>

theorem updateTopicStatus_missing_flag_counterexample:
  "initialPanelState
     (Some \<lparr>savedTopics = Value [(''/imu'', \<lparr>enabled = Some True, showRoll = None,
                                             showPitch = Some False, showYaw = Some True\<rparr>)],
            savedDisplaySettings = NoKey\<rparr>) =
     \<lparr>topics = [(''/imu'', \<lparr>enabled = Some True, showRoll = None,
                           showPitch = Some False, showYaw = Some True\<rparr>)],
      displaySettings = Some \<lparr>rollEnabled = Some True, pitchEnabled = Some True, yawEnabled = Some True\<rparr>\<rparr>
   \<and> topics (updateTopicStatus
       \<lparr>topics = [(''/imu'', \<lparr>enabled = Some True, showRoll = None,
                             showPitch = Some False, showYaw = Some True\<rparr>)],
        displaySettings = Some \<lparr>rollEnabled = Some True, pitchEnabled = Some True, yawEnabled = Some True\<rparr>\<rparr>
       ''/imu'' False) =
       [(''/imu'', \<lparr>enabled = Some False, showRoll = Some True,
                    showPitch = Some False, showYaw = Some True\<rparr>)]
   \<and> Option.bind (map_of (topics (updateTopicStatus
       \<lparr>topics = [(''/imu'', \<lparr>enabled = Some True, showRoll = None,
                             showPitch = Some False, showYaw = Some True\<rparr>)],
        displaySettings = Some \<lparr>rollEnabled = Some True, pitchEnabled = Some True, yawEnabled = Some True\<rparr>\<rparr>
       ''/imu'' False)) ''/imu'') showRoll \<noteq>
     Option.bind (map_of (topics
       \<lparr>topics = [(''/imu'', \<lparr>enabled = Some True, showRoll = None,
                             showPitch = Some False, showYaw = Some True\<rparr>)],
        displaySettings = Some \<lparr>rollEnabled = Some True, pitchEnabled = Some True, yawEnabled = Some True\<rparr>\<rparr>)
       ''/imu'') showRoll"
  by (simp add: updateTopicStatus_def orElse_def initialPanelState_def savedTopicsOf_def
      getInitialState_def objectSpread_def)

section \<open>Properties of the settings projection\<close>

lemma topicNode_cong: "name t = name t' \<Longrightarrow> topicNode st t = topicNode st t'"
  by (simp add: topicNode_def Let_def)

lemma map_of_fold_update:
  "map_of (fold (\<lambda>t result. AList.update (key t) (f t) result) ts acc) k =
     (case find (\<lambda>t. key t = k) (rev ts) of None \<Rightarrow> map_of acc k | Some t \<Rightarrow> Some (f t))"
  by (induction ts arbitrary: acc rule: rev_induct) (auto simp: update_conv')

lemma fold_skip:
  "fold (\<lambda>x acc. if P x then acc else f x acc) xs a = fold f (filter (\<lambda>x. \<not> P x) xs) a"
  by (induction xs arbitrary: a) auto

lemma topicNodes_lookup:
  assumes "t \<in> set ts" and "name t \<noteq> ''__proto__''"
  shows "map_of (fold (\<lambda>topic result.
                    if name topic = ''__proto__'' then result
                    else AList.update (name topic) (topicNode st topic) result) ts [])
           (name t) = Some (topicNode st t)"
proof -
  let ?ts = "filter (\<lambda>u. \<not> name u = ''__proto__'') ts"
  from assms have "find (\<lambda>u. name u = name t) (rev ?ts) \<noteq> None"
    by (auto simp: find_None_iff)
  then obtain u where u: "find (\<lambda>u. name u = name t) (rev ?ts) = Some u" by auto
  then have "name u = name t" by (auto simp: find_Some_iff)
  then have "topicNode st u = topicNode st t" by (rule topicNode_cong)
  with u show ?thesis by (simp only: fold_skip map_of_fold_update option.case)
qed

lemma isEnabled_topicEnabled:
  "orElse (Option.bind (map_of (topics st) k) enabled) False = topicEnabled st k"
  by (auto simp: orElse_def topicEnabled_def split: option.splits Option.bind_splits)

text \<open>
  Claim C9, as the code has it. On a state without its \<^verbatim>\<open>displaySettings\<close> object
  \<^verbatim>\<open>buildSettingsTree\<close> throws, whatever the candidates. On a state that has it, with any
  flag missing, and for every list of candidate sources, it returns a tree. Its general
  section carries the three display flags as they are. Each candidate whose name is not
  \<^verbatim>\<open>__proto__\<close> has a node whose visibility is the source's \<open>enabled\<close> flag, false when the
  source has no configuration or no such flag. A node that is not visible has no children; a
  visible one has the three show-flag fields, each the flag of the configuration and true
  when it is missing.
\<close>

theorem buildSettingsTree_total:
  "(displaySettings st = None \<longrightarrow> buildSettingsTree st ts = Inl TypeError) \<and>
   (displaySettings st = Some d \<longrightarrow>
     (\<exists>tree topicNodes.
       buildSettingsTree st ts = Inr tree \<and>
       map_of tree ''topics'' = Some (SettingsTreeNode ''Topics'' None None None (Some topicNodes)) \<and>
       map_option (\<lambda>n. map_option (map (\<lambda>(k, f). (k, fieldValue f))) (SettingsTreeNode.fields n))
           (map_of tree ''general'') =
         Some (Some [(''rollEnabled'', rollEnabled d), (''pitchEnabled'', pitchEnabled d),
                     (''yawEnabled'', yawEnabled d)]) \<and>
       (\<forall>t \<in> set ts. name t \<noteq> ''__proto__'' \<longrightarrow> (\<exists>node.
          map_of topicNodes (name t) = Some node \<and>
          visible node = Some (topicEnabled st (name t)) \<and>
          (\<not> topicEnabled st (name t) \<longrightarrow> children node = None) \<and>
          (\<forall>c. topicEnabled st (name t) \<and> map_of (topics st) (name t) = Some c \<longrightarrow>
             (\<exists>settings. children node = Some [(''topicSettings'', settings)] \<and>
                map_option (map (\<lambda>(k, f). (k, fieldValue f))) (SettingsTreeNode.fields settings) =
                  Some [(''showRoll'', Some (orElse (showRoll c) True)),
                        (''showPitch'', Some (orElse (showPitch c) True)),
                        (''showYaw'', Some (orElse (showYaw c) True))]))))))"
proof (intro conjI impI)
  assume "displaySettings st = None"
  then show "buildSettingsTree st ts = Inl TypeError"
    by (simp add: buildSettingsTree_def Let_def)
next
  assume d: "displaySettings st = Some d"
  let ?nodes = "fold (\<lambda>topic result.
                    if name topic = ''__proto__'' then result
                    else AList.update (name topic) (topicNode st topic) result) ts []"
  have node: "\<forall>t \<in> set ts. name t \<noteq> ''__proto__'' \<longrightarrow> (\<exists>node.
        map_of ?nodes (name t) = Some node \<and>
        visible node = Some (topicEnabled st (name t)) \<and>
        (\<not> topicEnabled st (name t) \<longrightarrow> children node = None) \<and>
        (\<forall>c. topicEnabled st (name t) \<and> map_of (topics st) (name t) = Some c \<longrightarrow>
           (\<exists>settings. children node = Some [(''topicSettings'', settings)] \<and>
              map_option (map (\<lambda>(k, f). (k, fieldValue f))) (SettingsTreeNode.fields settings) =
                Some [(''showRoll'', Some (orElse (showRoll c) True)),
                      (''showPitch'', Some (orElse (showPitch c) True)),
                      (''showYaw'', Some (orElse (showYaw c) True))])))"
  proof (intro ballI impI)
    fix t assume "t \<in> set ts" and "name t \<noteq> ''__proto__''"
    then have "map_of ?nodes (name t) = Some (topicNode st t)" by (rule topicNodes_lookup)
    then show "\<exists>node.
        map_of ?nodes (name t) = Some node \<and>
        visible node = Some (topicEnabled st (name t)) \<and>
        (\<not> topicEnabled st (name t) \<longrightarrow> children node = None) \<and>
        (\<forall>c. topicEnabled st (name t) \<and> map_of (topics st) (name t) = Some c \<longrightarrow>
           (\<exists>settings. children node = Some [(''topicSettings'', settings)] \<and>
              map_option (map (\<lambda>(k, f). (k, fieldValue f))) (SettingsTreeNode.fields settings) =
                Some [(''showRoll'', Some (orElse (showRoll c) True)),
                      (''showPitch'', Some (orElse (showPitch c) True)),
                      (''showYaw'', Some (orElse (showYaw c) True))]))"
      by (simp add: topicNode_def Let_def isEnabled_topicEnabled)
  qed
  have "buildSettingsTree st ts = Inr
     [(''general'',
       SettingsTreeNode ''Display Elements'' None None
         (Some
           [(''rollEnabled'',
             \<lparr>label = ''Roll Display'', input = ''boolean'', fieldValue = rollEnabled d\<rparr>),
            (''pitchEnabled'',
             \<lparr>label = ''Pitch Display'', input = ''boolean'', fieldValue = pitchEnabled d\<rparr>),
            (''yawEnabled'',
             \<lparr>label = ''Yaw Display'', input = ''boolean'', fieldValue = yawEnabled d\<rparr>)])
         None),
      (''topics'', SettingsTreeNode ''Topics'' None None None (Some ?nodes))]"
    using d by (simp add: buildSettingsTree_def Let_def)
  with node show "\<exists>tree topicNodes.
       buildSettingsTree st ts = Inr tree \<and>
       map_of tree ''topics'' = Some (SettingsTreeNode ''Topics'' None None None (Some topicNodes)) \<and>
       map_option (\<lambda>n. map_option (map (\<lambda>(k, f). (k, fieldValue f))) (SettingsTreeNode.fields n))
           (map_of tree ''general'') =
         Some (Some [(''rollEnabled'', rollEnabled d), (''pitchEnabled'', pitchEnabled d),
                     (''yawEnabled'', yawEnabled d)]) \<and>
       (\<forall>t \<in> set ts. name t \<noteq> ''__proto__'' \<longrightarrow> (\<exists>node.
          map_of topicNodes (name t) = Some node \<and>
          visible node = Some (topicEnabled st (name t)) \<and>
          (\<not> topicEnabled st (name t) \<longrightarrow> children node = None) \<and>
          (\<forall>c. topicEnabled st (name t) \<and> map_of (topics st) (name t) = Some c \<longrightarrow>
             (\<exists>settings. children node = Some [(''topicSettings'', settings)] \<and>
                map_option (map (\<lambda>(k, f). (k, fieldValue f))) (SettingsTreeNode.fields settings) =
                  Some [(''showRoll'', Some (orElse (showRoll c) True)),
                        (''showPitch'', Some (orElse (showPitch c) True)),
                        (''showYaw'', Some (orElse (showYaw c) True))]))))"
    by simp
qed

text \<open>
  The theorem at a restored state with incomplete objects and two candidates, \<open>/imu\<close> (enabled,
  its \<open>showRoll\<close> missing) and \<open>/odom\<close> (no configuration), and at the same state without its
  display settings.
\<close>

theorem buildSettingsTree_total_witness:
  "buildSettingsTree
     \<lparr>topics = [(''/imu'', \<lparr>enabled = Some True, showRoll = None, showPitch = Some False, showYaw = Some True\<rparr>)],
      displaySettings = Some \<lparr>rollEnabled = Some False, pitchEnabled = None, yawEnabled = None\<rparr>\<rparr>
     [\<lparr>name = ''/imu'', schemaName = ''sensor_msgs/Imu''\<rparr>,
      \<lparr>name = ''/odom'', schemaName = ''nav_msgs/Odometry''\<rparr>] =
   Inr [(''general'',
         SettingsTreeNode ''Display Elements'' None None
           (Some [(''rollEnabled'', \<lparr>label = ''Roll Display'', input = ''boolean'', fieldValue = Some False\<rparr>),
                  (''pitchEnabled'', \<lparr>label = ''Pitch Display'', input = ''boolean'', fieldValue = None\<rparr>),
                  (''yawEnabled'', \<lparr>label = ''Yaw Display'', input = ''boolean'', fieldValue = None\<rparr>)])
           None),
        (''topics'',
         SettingsTreeNode ''Topics'' None None None
           (Some [(''/imu'',
                   SettingsTreeNode ''/imu'' (Some ''collapsed'') (Some True) None
                     (Some [(''topicSettings'',
                             SettingsTreeNode ''Topic Settings'' None None
                               (Some [(''showRoll'', \<lparr>label = ''Show Roll'', input = ''boolean'', fieldValue = Some True\<rparr>),
                                      (''showPitch'', \<lparr>label = ''Show Pitch'', input = ''boolean'', fieldValue = Some False\<rparr>),
                                      (''showYaw'', \<lparr>label = ''Show Yaw'', input = ''boolean'', fieldValue = Some True\<rparr>)])
                               None)])),
                  (''/odom'', SettingsTreeNode ''/odom'' (Some ''collapsed'') (Some False) None None)]))]
   \<and> buildSettingsTree
     \<lparr>topics = [(''/imu'', \<lparr>enabled = Some True, showRoll = None, showPitch = Some False, showYaw = Some True\<rparr>)],
      displaySettings = None\<rparr>
     [\<lparr>name = ''/imu'', schemaName = ''sensor_msgs/Imu''\<rparr>,
      \<lparr>name = ''/odom'', schemaName = ''nav_msgs/Odometry''\<rparr>] = Inl TypeError"
  using buildSettingsTree_total
      [where st = "\<lparr>topics = [(''/imu'', \<lparr>enabled = Some True, showRoll = None, showPitch = Some False, showYaw = Some True\<rparr>)],
                     displaySettings = Some \<lparr>rollEnabled = Some False, pitchEnabled = None, yawEnabled = None\<rparr>\<rparr>"
         and d = "\<lparr>rollEnabled = Some False, pitchEnabled = None, yawEnabled = None\<rparr>"
         and ts = "[\<lparr>name = ''/imu'', schemaName = ''sensor_msgs/Imu''\<rparr>,
                    \<lparr>name = ''/odom'', schemaName = ''nav_msgs/Odometry''\<rparr>]"]
    buildSettingsTree_total
      [where st = "\<lparr>topics = [(''/imu'', \<lparr>enabled = Some True, showRoll = None, showPitch = Some False, showYaw = Some True\<rparr>)],
                     displaySettings = None\<rparr>"
         and ts = "[\<lparr>name = ''/imu'', schemaName = ''sensor_msgs/Imu''\<rparr>,
                    \<lparr>name = ''/odom'', schemaName = ''nav_msgs/Odometry''\<rparr>]"]
  by (simp add: buildSettingsTree_def topicNode_def orElse_def)

text \<open>
  Claim C9 as stated fails. On a state without its \<^verbatim>\<open>displaySettings\<close> object, which is
  the state restored from the persisted value \<^verbatim>\<open>{displaySettings: null}\<close>, the function
  throws, with no candidate at all. And on the default state a candidate named \<^verbatim>\<open>__proto__\<close>
  gets no node.
\<close>

theorem buildSettingsTree_missing_displaySettings_counterexample:
  "initialPanelState (Some \<lparr>savedTopics = NoKey, savedDisplaySettings = NullValue\<rparr>) =
     \<lparr>topics = [], displaySettings = None\<rparr>
   \<and> buildSettingsTree \<lparr>topics = [], displaySettings = None\<rparr> [] = Inl TypeError
   \<and> buildSettingsTree getInitialState [\<lparr>name = ''__proto__'', schemaName = ''sensor_msgs/Imu''\<rparr>] =
       Inr [(''general'',
             SettingsTreeNode ''Display Elements'' None None
               (Some [(''rollEnabled'', \<lparr>label = ''Roll Display'', input = ''boolean'', fieldValue = Some True\<rparr>),
                      (''pitchEnabled'', \<lparr>label = ''Pitch Display'', input = ''boolean'', fieldValue = Some True\<rparr>),
                      (''yawEnabled'', \<lparr>label = ''Yaw Display'', input = ''boolean'', fieldValue = Some True\<rparr>)])
               None),
            (''topics'', SettingsTreeNode ''Topics'' None None None (Some []))]"
  by (simp add: buildSettingsTree_def initialPanelState_def savedTopicsOf_def getInitialState_def
      objectSpread_def)

section \<open>Properties of restoring the state\<close>

lemma update_append_new: "k \<notin> fst ` set al \<Longrightarrow> AList.update k v al = al @ [(k, v)]"
  by (induction al) auto

lemma objectSpread_fresh:
  "distinct (map fst t) \<Longrightarrow> fst ` set acc \<inter> fst ` set t = {} \<Longrightarrow> objectSpread acc t = acc @ t"
proof (induction t arbitrary: acc)
  case Nil
  then show ?case by (simp add: objectSpread_def)
next
  case (Cons a t)
  obtain k v where a: "a = (k, v)" by (cases a)
  from Cons.prems have k: "k \<notin> fst ` set acc" by (auto simp: a)
  have "objectSpread acc (a # t) = objectSpread (acc @ [(k, v)]) t"
    by (simp add: objectSpread_def a update_append_new [OF k])
  also have "\<dots> = (acc @ [(k, v)]) @ t"
    using Cons.prems by (intro Cons.IH) (auto simp: a)
  finally show ?case by (simp add: a)
qed

lemma objectSpread_values: "set (objectSpread acc t) \<subseteq> set acc \<union> set t"
  unfolding objectSpread_def
proof (induction t arbitrary: acc)
  case Nil
  then show ?case by simp
next
  case (Cons a t)
  have "set (AList.update (fst a) (snd a) acc) \<subseteq> set acc \<union> {a}"
    by (induction acc) auto
  with Cons.IH [of "AList.update (fst a) (snd a) acc"] show ?case
    by (auto simp: case_prod_beta)
qed

lemma mountPanel_eq:
  "mountPanel savedState =
     (case displaySettings (initialPanelState savedState) of
        None \<Rightarrow> Inl TypeError
      | Some d \<Rightarrow> Inr (initialPanel savedState))"
  by (simp add: mountPanel_def renderDisplays_def buildSettingsTree_def updateDisplays_def
      bindE_def Let_def split: option.splits)

text \<open>
  Claim C5, as the code has it. The initializer merges one level deep. The topics of the
  built state are the persisted topics (an object, so each name once), each configuration as
  persisted, and no topic when the key is missing or \<^verbatim>\<open>null\<close>. Its display settings are the
  persisted value as it is when the key is present, and the defaults, all true, when the key
  or the whole persisted state is missing. So every field of the built state is defined when
  every persisted topic configuration is complete and the persisted display settings are
  complete or missing. Panel initialization does not throw when the persisted display
  settings are an object or missing, whichever flags are missing, and throws at the first
  render when they are \<^verbatim>\<open>null\<close>.
\<close>

theorem initialPanelState_shallow_merge:
  "(distinct (map fst (savedTopicsOf savedState)) \<longrightarrow>
      topics (initialPanelState savedState) = savedTopicsOf savedState) \<and>
   displaySettings (initialPanelState savedState) =
     (case savedState of
        None \<Rightarrow> Some \<lparr>rollEnabled = Some True, pitchEnabled = Some True, yawEnabled = Some True\<rparr>
      | Some sv \<Rightarrow>
          (case savedDisplaySettings sv of
             NoKey \<Rightarrow> Some \<lparr>rollEnabled = Some True, pitchEnabled = Some True, yawEnabled = Some True\<rparr>
           | NullValue \<Rightarrow> None
           | Value d \<Rightarrow> Some d)) \<and>
   (list_all (\<lambda>(topicName, c). completeTopicConfig c) (savedTopicsOf savedState) \<and>
    (\<forall>sv. savedState = Some sv \<longrightarrow>
       (case savedDisplaySettings sv of
          NoKey \<Rightarrow> True | NullValue \<Rightarrow> False | Value d \<Rightarrow> completeDisplaySettings d))
    \<longrightarrow> completeState (initialPanelState savedState)) \<and>
   ((\<forall>sv. savedState = Some sv \<longrightarrow> savedDisplaySettings sv \<noteq> NullValue) \<longrightarrow>
      mountPanel savedState = Inr (initialPanel savedState)) \<and>
   ((\<exists>sv. savedState = Some sv \<and> savedDisplaySettings sv = NullValue) \<longrightarrow>
      mountPanel savedState = Inl TypeError)"
proof (intro conjI impI)
  assume "distinct (map fst (savedTopicsOf savedState))"
  then have "objectSpread [] (savedTopicsOf savedState) = [] @ savedTopicsOf savedState"
    by (intro objectSpread_fresh) auto
  then show "topics (initialPanelState savedState) = savedTopicsOf savedState"
    by (simp add: initialPanelState_def getInitialState_def)
next
  show "displaySettings (initialPanelState savedState) =
     (case savedState of
        None \<Rightarrow> Some \<lparr>rollEnabled = Some True, pitchEnabled = Some True, yawEnabled = Some True\<rparr>
      | Some sv \<Rightarrow>
          (case savedDisplaySettings sv of
             NoKey \<Rightarrow> Some \<lparr>rollEnabled = Some True, pitchEnabled = Some True, yawEnabled = Some True\<rparr>
           | NullValue \<Rightarrow> None
           | Value d \<Rightarrow> Some d))"
    by (simp add: initialPanelState_def getInitialState_def split: option.splits entry.splits)
next
  assume a: "list_all (\<lambda>(topicName, c). completeTopicConfig c) (savedTopicsOf savedState) \<and>
    (\<forall>sv. savedState = Some sv \<longrightarrow>
       (case savedDisplaySettings sv of
          NoKey \<Rightarrow> True | NullValue \<Rightarrow> False | Value d \<Rightarrow> completeDisplaySettings d))"
  have t: "topics (initialPanelState savedState) = objectSpread [] (savedTopicsOf savedState)"
    by (simp add: initialPanelState_def getInitialState_def)
  have "list_all (\<lambda>(topicName, c). completeTopicConfig c) (topics (initialPanelState savedState))"
    using a objectSpread_values [of "[]" "savedTopicsOf savedState"] unfolding t
    by (auto simp: list_all_iff)
  moreover have "case displaySettings (initialPanelState savedState) of
                   None \<Rightarrow> False | Some d \<Rightarrow> completeDisplaySettings d"
    using a
    by (auto simp: initialPanelState_def getInitialState_def completeDisplaySettings_def
        split: option.splits entry.splits)
  ultimately show "completeState (initialPanelState savedState)"
    by (simp add: completeState_def)
next
  assume "\<forall>sv. savedState = Some sv \<longrightarrow> savedDisplaySettings sv \<noteq> NullValue"
  then show "mountPanel savedState = Inr (initialPanel savedState)"
    by (auto simp: mountPanel_eq initialPanelState_def getInitialState_def
        split: option.splits entry.splits)
next
  assume "\<exists>sv. savedState = Some sv \<and> savedDisplaySettings sv = NullValue"
  then show "mountPanel savedState = Inl TypeError"
    by (auto simp: mountPanel_eq initialPanelState_def)
qed

text \<open>
  The theorem at a persisted state that has one complete topic and no \<^verbatim>\<open>displaySettings\<close>
  key: the topic is restored, the display settings are the defaults and the panel mounts,
  subscribed to the topic. And at the persisted state \<^verbatim>\<open>{displaySettings: null}\<close>: the first
  render throws.
\<close>

theorem initialPanelState_shallow_merge_witness:
  "initialPanelState
     (Some \<lparr>savedTopics = Value [(''/imu'', \<lparr>enabled = Some True, showRoll = Some False,
                                             showPitch = Some True, showYaw = Some True\<rparr>)],
            savedDisplaySettings = NoKey\<rparr>) =
     \<lparr>topics = [(''/imu'', \<lparr>enabled = Some True, showRoll = Some False,
                           showPitch = Some True, showYaw = Some True\<rparr>)],
      displaySettings = Some \<lparr>rollEnabled = Some True, pitchEnabled = Some True, yawEnabled = Some True\<rparr>\<rparr>
   \<and> completeState (initialPanelState
     (Some \<lparr>savedTopics = Value [(''/imu'', \<lparr>enabled = Some True, showRoll = Some False,
                                             showPitch = Some True, showYaw = Some True\<rparr>)],
            savedDisplaySettings = NoKey\<rparr>))
   \<and> mountPanel
     (Some \<lparr>savedTopics = Value [(''/imu'', \<lparr>enabled = Some True, showRoll = Some False,
                                             showPitch = Some True, showYaw = Some True\<rparr>)],
            savedDisplaySettings = NoKey\<rparr>) =
     Inr \<lparr>orientations = [], messages = [],
          state = \<lparr>topics = [(''/imu'', \<lparr>enabled = Some True, showRoll = Some False,
                                          showPitch = Some True, showYaw = Some True\<rparr>)],
                   displaySettings = Some \<lparr>rollEnabled = Some True, pitchEnabled = Some True,
                                           yawEnabled = Some True\<rparr>\<rparr>,
          subscribed = [''/imu''], console = []\<rparr>
   \<and> mountPanel (Some \<lparr>savedTopics = NoKey, savedDisplaySettings = NullValue\<rparr>) = Inl TypeError"
  using initialPanelState_shallow_merge
      [of "Some \<lparr>savedTopics = Value [(''/imu'', \<lparr>enabled = Some True, showRoll = Some False,
                                             showPitch = Some True, showYaw = Some True\<rparr>)],
            savedDisplaySettings = NoKey\<rparr>"]
    initialPanelState_shallow_merge
      [of "Some \<lparr>savedTopics = NoKey, savedDisplaySettings = NullValue\<rparr>"]
  by (auto simp: savedTopicsOf_def completeTopicConfig_def initialPanelState_def getInitialState_def
      objectSpread_def initialPanel_def getEnabledTopics_def)

text \<open>
  Claim C5 as stated fails: a persisted \<^verbatim>\<open>displaySettings\<close> object that holds
  \<^verbatim>\<open>rollEnabled\<close> alone is taken as it is, so the built state is not the deep merge over
  the defaults, and its \<^verbatim>\<open>pitchEnabled\<close> and \<^verbatim>\<open>yawEnabled\<close> are not defined.
\<close>

theorem initialPanelState_deep_merge_counterexample:
  "initialPanelState (Some \<lparr>savedTopics = NoKey,
       savedDisplaySettings = Value \<lparr>rollEnabled = Some False, pitchEnabled = None, yawEnabled = None\<rparr>\<rparr>) \<noteq>
   deepMerge_spec (Some \<lparr>savedTopics = NoKey,
       savedDisplaySettings = Value \<lparr>rollEnabled = Some False, pitchEnabled = None, yawEnabled = None\<rparr>\<rparr>)
   \<and> \<not> completeState (initialPanelState (Some \<lparr>savedTopics = NoKey,
       savedDisplaySettings = Value \<lparr>rollEnabled = Some False, pitchEnabled = None, yawEnabled = None\<rparr>\<rparr>))"
  by (simp add: initialPanelState_def deepMerge_spec_def deepMergeDisplaySettings_def
      getInitialState_def completeState_def completeDisplaySettings_def objectSpread_def
      savedTopicsOf_def)

section \<open>Properties of the visual refresh\<close>

text \<open>
  Claim C1, at ten enabled sources with cached orientations, every display mounted and empty.
  The refresh does not throw and draws nine roll indicators, for the first nine sources in
  cache order; the tenth source is not drawn. The palette has eight entries, so the ninth
  source, at display index 8, gets no colour: its background colour is \<^verbatim>\<open>undefined\<close> and its
  class is \<^verbatim>\<open>topic-indicator undefined\<close>.
\<close>

theorem updateDisplays_ninth_source_uncoloured:
  "(case updateDisplays \<lparr>rollDisplay = Some [], pitchDisplay = Some [], yawDisplay = Some []\<rparr>
          tenSourcesCache tenSourcesState of
      Inl e \<Rightarrow> False
    | Inr d \<Rightarrow>
       map_option (map rotate) (rollDisplay d) =
         Some [Finite 0, Finite 10, Finite 20, Finite 30, Finite 40, Finite 50, Finite 60, Finite 70, Finite 80] \<and>
       map_option (map backgroundColor) (rollDisplay d) = Some (map Some messageColors @ [None]) \<and>
       map_option (map className) (rollDisplay d) =
         Some (map (\<lambda>c. ''topic-indicator '' @ c) colorClasses @ [''topic-indicator undefined'']))"
  by code_simp

section \<open>Properties of the update cycle\<close>

lemma keysOf_update [simp]: "keysOf (AList.update k v al) = insert k (keysOf al)"
  by (simp add: keysOf_def dom_update)

lemma keysOf_delete [simp]: "keysOf (AList.delete k al) = keysOf al - {k}"
  unfolding keysOf_def by (induction al) (auto simp: AList.delete_eq)

lemma keysOf_Nil [simp]: "keysOf [] = {}"
  by (simp add: keysOf_def)

lemma keysOf_member: "(k, v) \<in> set al \<Longrightarrow> k \<in> keysOf al"
  by (force simp: keysOf_def)

lemma has_iff: "has m k \<longleftrightarrow> k \<in> keysOf m"
  by (simp add: has_def keysOf_def map_of_eq_None_iff)

lemma foldE_invariant:
  assumes "\<And>x a. x \<in> set xs \<Longrightarrow> P a \<Longrightarrow> \<exists>a'. f x a = Inr a' \<and> P a'" and "P a"
  shows "\<exists>a'. foldE f xs a = Inr a' \<and> P a'"
  using assms
proof (induction xs arbitrary: a)
  case Nil
  then show ?case by simp
next
  case (Cons x xs)
  from Cons.prems obtain a1 where a1: "f x a = Inr a1" "P a1" by (meson list.set_intros(1))
  have "\<exists>a'. foldE f xs a1 = Inr a' \<and> P a'"
    by (rule Cons.IH) (use Cons.prems a1 in auto)
  with a1 show ?case by (simp add: bindE_def)
qed


lemma processMessage_cases:
  "\<exists>q. extractQuaternion (message (snd e)) = Inr q \<and>
       (if \<not> truthy q then processMessage fp sn e p = Inr p
        else \<exists>logged euler. quaternionToEuler fp sn q = Inr (logged, euler) \<and>
               processMessage fp sn e p =
                 Inr (p\<lparr>orientations := AList.update (fst e) euler (orientations p),
                        console := console p @ logged\<rparr>))"
proof -
  obtain q where q: "extractQuaternion (message (snd e)) = Inr q"
    by (simp add: extractQuaternion_eq)
  obtain logged euler where r: "quaternionToEuler fp sn q = Inr (logged, euler)"
    using quaternionToEuler_total [where fp = fp and sn = sn and q = q] by auto
  show ?thesis
    using q r by (auto simp: processMessage_def bindE_def)
qed

lemma processMessage_frame:
  "\<exists>a'. processMessage fp sn e a = Inr a' \<and> sameButOrientations a a' \<and>
        keysOf (orientations a') \<subseteq> insert (fst e) (keysOf (orientations a)) \<and>
        (\<forall>k. k \<noteq> fst e \<longrightarrow> map_of (orientations a') k = map_of (orientations a) k)"
  using processMessage_cases [where e = e and fp = fp and sn = sn and p = a]
  by (auto simp: sameButOrientations_def update_conv' split: if_splits)

lemma processMessages_frame:
  "\<exists>p'. processMessages fp sn p = Inr p' \<and> sameButOrientations p p' \<and>
        keysOf (orientations p') \<subseteq> keysOf (orientations p) \<union> keysOf (messages p) \<and>
        (\<forall>k. k \<notin> keysOf (messages p) \<longrightarrow> map_of (orientations p') k = map_of (orientations p) k)"
  unfolding processMessages_def
proof (rule foldE_invariant)
  show "sameButOrientations p p \<and>
        keysOf (orientations p) \<subseteq> keysOf (orientations p) \<union> keysOf (messages p) \<and>
        (\<forall>k. k \<notin> keysOf (messages p) \<longrightarrow> map_of (orientations p) k = map_of (orientations p) k)"
    by (simp add: sameButOrientations_def)
next
  fix x a
  assume x: "x \<in> set (messages p)"
    and a: "sameButOrientations p a \<and>
        keysOf (orientations a) \<subseteq> keysOf (orientations p) \<union> keysOf (messages p) \<and>
        (\<forall>k. k \<notin> keysOf (messages p) \<longrightarrow> map_of (orientations a) k = map_of (orientations p) k)"
  from processMessage_frame [where fp = fp and sn = sn and e = x and a = a] obtain a' where a':
    "processMessage fp sn x a = Inr a'" "sameButOrientations a a'"
    "keysOf (orientations a') \<subseteq> insert (fst x) (keysOf (orientations a))"
    "\<forall>k. k \<noteq> fst x \<longrightarrow> map_of (orientations a') k = map_of (orientations a) k"
    by blast
  have fx: "fst x \<in> keysOf (messages p)"
    using x by (simp add: keysOf_def)
  have "sameButOrientations p a'"
    using a a'(2) by (simp add: sameButOrientations_def)
  moreover have "keysOf (orientations a') \<subseteq> keysOf (orientations p) \<union> keysOf (messages p)"
    using a a'(3) fx by blast
  moreover have "\<forall>k. k \<notin> keysOf (messages p) \<longrightarrow> map_of (orientations a') k = map_of (orientations p) k"
    using a a'(4) fx by metis
  ultimately show "\<exists>a'. processMessage fp sn x a = Inr a' \<and> (sameButOrientations p a' \<and>
        keysOf (orientations a') \<subseteq> keysOf (orientations p) \<union> keysOf (messages p) \<and>
        (\<forall>k. k \<notin> keysOf (messages p) \<longrightarrow> map_of (orientations a') k = map_of (orientations p) k))"
    using a'(1) by blast
qed

lemma processMessages_cacheInv:
  assumes "cacheInv p"
  shows "\<exists>p'. processMessages fp sn p = Inr p' \<and> cacheInv p'"
proof -
  from processMessages_frame [where fp = fp and sn = sn and p = p] obtain p' where p':
    "processMessages fp sn p = Inr p'" "sameButOrientations p p'"
    "keysOf (orientations p') \<subseteq> keysOf (orientations p) \<union> keysOf (messages p)"
    by blast
  from p'(2) have eq: "messages p' = messages p" "state p' = state p"
    by (simp_all add: sameButOrientations_def)
  have "cacheInv p'"
    using assms p'(3) unfolding cacheInv_def eq by blast
  with p'(1) show ?thesis by blast
qed

lemma topicEnabled_updateTopicStatus:
  "topicEnabled (updateTopicStatus st t en) k = (if k = t then en else topicEnabled st k)"
  by (simp add: topicEnabled_def updateTopicStatus_def Let_def update_conv')

lemma topicEnabled_updateTopicComponentStatus:
  "topicEnabled (updateTopicComponentStatus st t component en) k = topicEnabled st k"
  by (cases component)
    (auto simp: topicEnabled_def updateTopicComponentStatus_def getTopic_def update_conv'
      split: option.splits if_splits)

lemma topicEnabled_updateDisplaySetting:
  "topicEnabled (updateDisplaySetting st component en) k = topicEnabled st k"
  by (simp add: topicEnabled_def updateDisplaySetting_def)

lemma subscriptionEffect_simps [simp]:
  "orientations (subscriptionEffect p) = orientations p"
  "messages (subscriptionEffect p) = messages p"
  "state (subscriptionEffect p) = state p"
  by (simp_all add: subscriptionEffect_def Let_def)

lemma cacheInv_subscriptionEffect [simp]: "cacheInv (subscriptionEffect p) = cacheInv p"
  by (simp add: cacheInv_def)

lemma onRender_keys:
  "keysOf (fold (\<lambda>msg newMessages.
                         if topicEnabled st (topic msg)
                         then AList.update (topic msg) msg newMessages
                         else newMessages) frame ms)
   = keysOf ms \<union> {topic msg | msg. msg \<in> set frame \<and> topicEnabled st (topic msg)}"
  by (induction frame arbitrary: ms) auto

lemma cacheInv_onRender: "cacheInv p \<Longrightarrow> cacheInv (onRender currentFrame p)"
  by (auto simp: cacheInv_def onRender_def onRender_keys subset_iff split: option.splits)

lemma handleTopicEnabledChange_simps:
  "state (handleTopicEnabledChange t en p) = updateTopicStatus (state p) t en"
  "messages (handleTopicEnabledChange t en p) =
     (if \<not> en \<and> has (messages p) t then AList.delete t (messages p) else messages p)"
  "orientations (handleTopicEnabledChange t en p) =
     (if \<not> en \<and> has (messages p) t then AList.delete t (orientations p) else orientations p)"
  by (simp_all add: handleTopicEnabledChange_def Let_def)

lemma cacheInv_handleTopicEnabledChange:
  "cacheInv p \<Longrightarrow> cacheInv (handleTopicEnabledChange t en p)"
  by (auto simp: cacheInv_def handleTopicEnabledChange_simps topicEnabled_updateTopicStatus
      has_iff subset_iff)

lemma step_cacheInv:
  assumes "cacheInv p"
  shows "\<exists>p'. step fp sn ev p = Inr p' \<and> cacheInv p'"
proof (cases ev)
  case (Render currentFrame)
  then show ?thesis
    using processMessages_cacheInv [OF cacheInv_onRender [OF assms], where fp = fp and sn = sn and currentFrame1 = currentFrame] assms
    by (auto split: option.splits)
next
  case (TopicEnabledChange t en)
  have "cacheInv (subscriptionEffect (handleTopicEnabledChange t en p))"
    using assms by (simp add: cacheInv_handleTopicEnabledChange)
  then show ?thesis
    using processMessages_cacheInv [where p = "subscriptionEffect (handleTopicEnabledChange t en p)" and fp = fp and sn = sn]
    by (auto simp: TopicEnabledChange)
next
  case (DisplaySettingChange component en)
  then show ?thesis
    using assms by (simp add: cacheInv_def topicEnabled_updateDisplaySetting)
next
  case (TopicComponentChange t component en)
  then show ?thesis
    using assms by (simp add: cacheInv_def topicEnabled_updateTopicComponentStatus)
qed

lemma reachable_cacheInv: "reachable fp sn p \<Longrightarrow> cacheInv p"
proof (induction rule: reachable.induct)
  case (reachable_init savedState)
  then show ?case by (simp add: cacheInv_def initialPanel_def)
next
  case (reachable_step p ev p')
  then show ?case using step_cacheInv [where p = p and fp = fp and sn = sn and ev = ev] by auto
qed

lemma disable_step:
  assumes "cacheInv p"
  shows "\<exists>p'. step fp sn (TopicEnabledChange t False) p = Inr p' \<and>
              \<not> has (orientations p') t \<and> \<not> has (messages p') t \<and> \<not> topicEnabled (state p') t"
proof (cases "has (messages p) t")
  case True
  let ?q = "subscriptionEffect (handleTopicEnabledChange t False p)"
  from processMessages_frame [where fp = fp and sn = sn and p = ?q] obtain p' where p':
    "processMessages fp sn ?q = Inr p'" "sameButOrientations ?q p'"
    "keysOf (orientations p') \<subseteq> keysOf (orientations ?q) \<union> keysOf (messages ?q)"
    by blast
  have "t \<notin> keysOf (orientations ?q) \<union> keysOf (messages ?q)"
    using True by (simp add: handleTopicEnabledChange_simps)
  with p' have "\<not> has (orientations p') t \<and> \<not> has (messages p') t \<and> \<not> topicEnabled (state p') t"
    by (auto simp: has_iff sameButOrientations_def handleTopicEnabledChange_simps
        topicEnabled_updateTopicStatus subset_iff)
  with p'(1) True show ?thesis by simp
next
  case False
  with assms have "\<not> has (orientations p) t"
    by (auto simp: cacheInv_def has_iff subset_iff)
  with False show ?thesis
    by (simp add: handleTopicEnabledChange_simps topicEnabled_updateTopicStatus has_iff)
qed








lemmas eval_defs = initialPanel_def initialPanelState_def savedTopicsOf_def getInitialState_def
  objectSpread_def getEnabledTopics_def handleTopicEnabledChange_def updateTopicStatus_def
  subscriptionEffect_def has_def orElse_def Let_def onRender_def topicEnabled_def
  processMessages_def processMessage_def bindE_def extractQuaternion_eq isObject_def
  shapeBare_def firstNested_def nestedShapes_def optProp_def quaternionToEuler_def getProp_def


lemma step_enable: "step fp sn (TopicEnabledChange ''/imu'' True) (initialPanel None) = Inr panelEnabled"
  by (simp add: eval_defs panelEnabled_def)

lemma step_feed: "step fp sn (Render (Some [imuMessage])) panelEnabled = Inr panelFed"
  by (simp add: eval_defs panelEnabled_def panelFed_def imuMessage_def)

lemma step_disable: "step fp sn (TopicEnabledChange ''/imu'' False) panelFed = Inr panelDisabled"
  by (simp add: eval_defs panelEnabled_def panelFed_def imuMessage_def panelDisabled_def)

text \<open>
  Claim C4. In every reachable state of the panel, the step that disables a source returns
  (it does not throw), and the state it returns, reached with no further message, has no
  cached orientation and no cached message for that source. In every reachable state, each
  source with a cached orientation is enabled.
\<close>

theorem disable_purges_caches:
  assumes "reachable fp sn p"
  shows "(\<exists>p'. step fp sn (TopicEnabledChange t False) p = Inr p' \<and> reachable fp sn p' \<and>
               \<not> has (orientations p') t \<and> \<not> has (messages p') t) \<and>
         (\<forall>k. has (orientations p) k \<longrightarrow> topicEnabled (state p) k)"
proof
  from disable_step [OF reachable_cacheInv [OF assms], where fp = fp and sn = sn and t = t]
  obtain p' where p': "step fp sn (TopicEnabledChange t False) p = Inr p'"
    "\<not> has (orientations p') t" "\<not> has (messages p') t" by blast
  from assms p'(1) have "reachable fp sn p'" by (rule reachable_step)
  with p' show "\<exists>p'. step fp sn (TopicEnabledChange t False) p = Inr p' \<and> reachable fp sn p' \<and>
               \<not> has (orientations p') t \<and> \<not> has (messages p') t" by blast
next
  from reachable_cacheInv [OF assms]
  show "\<forall>k. has (orientations p) k \<longrightarrow> topicEnabled (state p) k"
    by (auto simp: cacheInv_def has_iff subset_iff)
qed

text \<open>
  The theorem on the scenario: after \<open>/imu\<close> is enabled and one message is delivered its
  orientation is cached; the disable step empties both caches.
\<close>

theorem disable_purges_caches_witness:
  "has (orientations panelFed) ''/imu''
   \<and> step nanOps (\<lambda>s. NaN) (TopicEnabledChange ''/imu'' False) panelFed = Inr panelDisabled
   \<and> \<not> has (orientations panelDisabled) ''/imu''
   \<and> \<not> has (messages panelDisabled) ''/imu''"
proof -
  have "reachable nanOps (\<lambda>s. NaN) panelEnabled"
    using reachable_init [where fp = nanOps and sn = "\<lambda>s. NaN" and savedState = None] step_enable by (rule reachable_step)
  then have r: "reachable nanOps (\<lambda>s. NaN) panelFed"
    using step_feed by (rule reachable_step)
  have cached: "has (orientations panelFed) ''/imu''"
    by (simp add: panelFed_def has_def)
  from disable_purges_caches [OF r, of "''/imu''"]
  obtain p' where p': "step nanOps (\<lambda>s. NaN) (TopicEnabledChange ''/imu'' False) panelFed = Inr p'"
    "\<not> has (orientations p') ''/imu''" "\<not> has (messages p') ''/imu''"
    by blast
  from p'(1) have "p' = panelDisabled"
    by (simp only: step_disable sum.inject)
  with p' cached show ?thesis
    by (simp only: step_disable simp_thms)
qed



end
